theory Spec2Isabelle
  imports Main "HOL-Library.AList" "HOL-Library.Char_ord" "HOL-Library.List_Lexorder"
begin

section \<open>JavaScript strings\<close>

text \<open>
  A JavaScript string is modelled as the list of its code units, \<open>string\<close>; \<open>length\<close> is
  \<open>.length\<close>, \<open>take n\<close> is \<open>.substring(0, n)\<close>. The characters of the model are the 8-bit
  ones, so the white space of \<open>\s\<close> and of \<open>trim()\<close> is the ASCII white space together with
  the no-break space.
\<close>

definition is_space :: "char \<Rightarrow> bool" where
  "is_space c = (c \<in> set [CHR '' '', CHR 0x09, CHR 0x0A, CHR 0x0B, CHR 0x0C, CHR 0x0D, CHR 0xA0])"

definition trim :: "string \<Rightarrow> string" where
  "trim s = rev (dropWhile is_space (rev (dropWhile is_space s)))"

text \<open>\<open>parts.join(sep)\<close> on an array of strings.\<close>

fun join :: "string \<Rightarrow> string list \<Rightarrow> string" where
  "join sep [] = []"
| "join sep [x] = x"
| "join sep (x # y # ys) = x @ sep @ join sep (y # ys)"

text \<open>\<open>s.split('\n')\<close>: the pieces between the separators, at least one piece.\<close>

fun split_lines :: "string \<Rightarrow> string list" where
  "split_lines [] = [[]]"
| "split_lines (c # cs) =
     (if c = CHR 0x0A then [] # split_lines cs
      else (case split_lines cs of [] \<Rightarrow> [[c]] | l # ls \<Rightarrow> (c # l) # ls))"

text \<open>\<open>s.startsWith(p)\<close>, returning what follows the prefix, and \<open>s.endsWith(p)\<close>.\<close>

fun strip_prefix :: "string \<Rightarrow> string \<Rightarrow> string option" where
  "strip_prefix [] s = Some s"
| "strip_prefix (p # ps) [] = None"
| "strip_prefix (p # ps) (c # cs) = (if p = c then strip_prefix ps cs else None)"

definition endsWith :: "string \<Rightarrow> string \<Rightarrow> bool" where
  "endsWith s p = (strip_prefix (rev p) (rev s) \<noteq> None)"

text \<open>The decimal digits of a number, as a template literal prints it.\<close>

fun show_nat :: "nat \<Rightarrow> string" where
  "show_nat n = (if n < 10 then [''0123456789'' ! n]
                 else show_nat (n div 10) @ [''0123456789'' ! (n mod 10)])"

declare show_nat.simps [simp del]

text \<open>A JavaScript \<open>Set\<close> of strings keeps insertion order and ignores a second \<open>add\<close>.\<close>

definition set_add :: "'a \<Rightarrow> 'a list \<Rightarrow> 'a list" where
  "set_add x xs = (if x \<in> set xs then xs else xs @ [x])"

section \<open>Send-file markers\<close>

text \<open>
  \<open>queue-processor.ts\<close> scans agent output with the regular expression
  \<^verbatim>\<open>/\[send_file:\s*([^\]]+)\]/g\<close>. At a given position it matches when the text there
  starts with \<^verbatim>\<open>[send_file:\<close>, is followed by at least one character other than
  \<^verbatim>\<open>]\<close>, and a \<^verbatim>\<open>]\<close> closes that run. The group is the run without its leading white
  space; when the run is white space only, backtracking leaves its last character in the
  group. \<open>fileRefMatch\<close> returns the group and the text after the match.
\<close>

definition send_file_tag :: string where
  "send_file_tag = ''[send_file:''"

definition not_close :: "char \<Rightarrow> bool" where
  "not_close c = (c \<noteq> CHR '']'')"

definition fileRefMatch :: "string \<Rightarrow> (string \<times> string) option" where
  "fileRefMatch s =
     (case strip_prefix send_file_tag s of
        None \<Rightarrow> None
      | Some r \<Rightarrow>
          (let body = takeWhile not_close r; rest = dropWhile not_close r
           in if body = [] \<or> rest = [] then None
              else Some (let g = dropWhile is_space body in if g = [] then [last body] else g,
                         tl rest)))"

lemma strip_prefix_length:
  "strip_prefix p s = Some r \<Longrightarrow> length s = length p + length r"
  by (induction p s rule: strip_prefix.induct) (auto split: if_splits)

lemma strip_prefix_append:
  "strip_prefix p s = Some r \<Longrightarrow> s = p @ r"
  by (induction p s rule: strip_prefix.induct) (auto split: if_splits)

lemma fileRefMatch_shorter:
  assumes "fileRefMatch s = Some (g, rest)"
  shows "length rest < length s"
proof -
  from assms obtain r where r: "strip_prefix send_file_tag s = Some r"
    and rest: "rest = tl (dropWhile not_close r)"
    by (auto simp: fileRefMatch_def Let_def split: option.splits if_splits)
  have "length rest \<le> length r"
    unfolding rest by (simp add: le_diff_conv le_SucI length_dropWhile_le)
  moreover have "length s = length send_file_tag + length r"
    using r by (rule strip_prefix_length)
  ultimately show ?thesis by (simp add: send_file_tag_def)
qed

text \<open>
  The loop \<^verbatim>\<open>while ((m = regex.exec(text)) !== null)\<close>: the groups of the successive
  matches, each search resuming after the previous match.
\<close>

function fileRefs :: "string \<Rightarrow> string list" where
  "fileRefs [] = []"
| "fileRefs (c # cs) =
     (case fileRefMatch (c # cs) of
        Some (g, rest) \<Rightarrow> g # fileRefs rest
      | None \<Rightarrow> fileRefs cs)"
  by pat_completeness auto
termination
  by (relation "measure length") (auto dest: fileRefMatch_shorter)

text \<open>\<^verbatim>\<open>text.replace(regex, '')\<close> with the same global expression.\<close>

function stripFileRefs :: "string \<Rightarrow> string" where
  "stripFileRefs [] = []"
| "stripFileRefs (c # cs) =
     (case fileRefMatch (c # cs) of
        Some (g, rest) \<Rightarrow> stripFileRefs rest
      | None \<Rightarrow> c # stripFileRefs cs)"
  by pat_completeness auto
termination
  by (relation "measure length") (auto dest: fileRefMatch_shorter)

text \<open>Whether the expression matches anywhere in a text.\<close>

fun hasFileRef :: "string \<Rightarrow> bool" where
  "hasFileRef [] = False"
| "hasFileRef (c # cs) = (fileRefMatch (c # cs) \<noteq> None \<or> hasFileRef cs)"

text \<open>
  The body of the scanning loops (lines 205-212, 269-274 and 334-341): every group,
  trimmed, is added to the set when \<open>fs.existsSync\<close> holds of it.
\<close>

definition collectFiles :: "(string \<Rightarrow> bool) \<Rightarrow> string list \<Rightarrow> string \<Rightarrow> string list" where
  "collectFiles existsSync acc text =
     fold (\<lambda>g fs. let filePath = trim g in if existsSync filePath then set_add filePath fs else fs)
          (fileRefs text) acc"

text \<open>Lines 349-352: the length limit of a dispatcher response.\<close>

definition limitResponse :: "string \<Rightarrow> string" where
  "limitResponse finalResponse =
     (if length finalResponse > 4000
      then take 3900 finalResponse @ [CHR 0x0A, CHR 0x0A] @ ''[Response truncated...]''
      else finalResponse)"

section \<open>JSON values\<close>

text \<open>
  The result of \<open>JSON.parse\<close>. Numbers are the integers; \<open>undefined\<close> is \<open>None\<close> of
  \<open>json option\<close>. \<open>JSON.parse\<close> and \<open>JSON.stringify\<close> themselves are parameters of the
  functions that call them: \<open>parse s = None\<close> stands for the \<open>SyntaxError\<close>.
\<close>

datatype json =
  JNull | JBool bool | JNum int | JStr string | JArr "json list" | JObj "(string \<times> json) list"

datatype js_error = ENOENT | SyntaxError | TypeError | CommandFailed string

text \<open>
  Reading a property \<open>v.k\<close>: a \<open>TypeError\<close> on \<open>null\<close>, the member of an object, and
  \<open>undefined\<close> on every other value (the names read by the program are not built-in
  properties of strings, numbers or arrays).
\<close>

fun getProp :: "json \<Rightarrow> string \<Rightarrow> js_error + json option" where
  "getProp JNull k = Inl TypeError"
| "getProp (JObj kvs) k = Inr (map_of kvs k)"
| "getProp v k = Inr None"

text \<open>Optional chaining \<open>v?.k\<close> on a value that may be \<open>undefined\<close>.\<close>

fun opt_prop :: "json option \<Rightarrow> string \<Rightarrow> json option" where
  "opt_prop None k = None"
| "opt_prop (Some v) k = (case getProp v k of Inl e \<Rightarrow> None | Inr r \<Rightarrow> r)"

fun truthy :: "json option \<Rightarrow> bool" where
  "truthy None = False"
| "truthy (Some JNull) = False"
| "truthy (Some (JBool b)) = b"
| "truthy (Some (JNum n)) = (n \<noteq> 0)"
| "truthy (Some (JStr s)) = (s \<noteq> [])"
| "truthy (Some (JArr xs)) = True"
| "truthy (Some (JObj kvs)) = True"

text \<open>\<open>String(v)\<close>, which is also how a template literal prints a value.\<close>

fun js_String :: "json \<Rightarrow> string" where
  "js_String JNull = ''null''"
| "js_String (JBool b) = (if b then ''true'' else ''false'')"
| "js_String (JNum n) = (if n < 0 then CHR ''-'' # show_nat (nat (- n)) else show_nat (nat n))"
| "js_String (JStr s) = s"
| "js_String (JArr xs) = join '','' (map (\<lambda>x. if x = JNull then [] else js_String x) xs)"
| "js_String (JObj kvs) = ''[object Object]''"

fun template :: "json option \<Rightarrow> string" where
  "template None = ''undefined''"
| "template (Some v) = js_String v"

section \<open>Memory composer (\<open>loadMemoryContext\<close>)\<close>

abbreviation NL :: char where
  "NL \<equiv> CHR 0x0A"

text \<open>\<open>s.includes(p)\<close>.\<close>

fun str_includes :: "string \<Rightarrow> string \<Rightarrow> bool" where
  "str_includes [] p = (p = [])"
| "str_includes (c # cs) p = (if strip_prefix p (c # cs) = None then str_includes cs p else True)"

text \<open>
  The files of one agent's \<open>memory\<close> directory as \<open>loadMemoryContext\<close> reads them:
  \<open>None\<close> is a file that does not exist. The episodes and skills sections (parts 3 and 4 of
  the function) are taken as given, as functions of the user message.
\<close>

record memory_files =
  memoryDirExists :: bool
  knowledge_md :: "string option"
  reflections_jsonl :: "string option"
  episodesSection :: "string \<Rightarrow> string option"
  skillsSection :: "string \<Rightarrow> string option"

definition knowledgeSection :: "string option \<Rightarrow> string option" where
  "knowledgeSection file =
     (case file of
        None \<Rightarrow> None
      | Some raw \<Rightarrow>
          (let knowledge = trim raw
           in if knowledge \<noteq> [] \<and> \<not> str_includes knowledge ''_No entries yet''
              then Some (''## Knowledge'' @ [NL] @ knowledge) else None))"

text \<open>The arrow U+2192 of the reflection line, written as its UTF-8 bytes.\<close>

definition arrow :: string where
  "arrow = [CHR 0xE2, CHR 0x86, CHR 0x92]"

text \<open>
  The callback of \<open>recent.map\<close>: the rendered line, or \<open>null\<close> when \<open>JSON.parse\<close> throws or
  the parsed value is \<open>null\<close> (reading \<open>r.type\<close> then throws inside the \<open>try\<close>).
\<close>

definition formatReflection :: "(string \<Rightarrow> json option) \<Rightarrow> string \<Rightarrow> string option" where
  "formatReflection parse line =
     (case parse line of
        None \<Rightarrow> None
      | Some r \<Rightarrow>
          (case getProp r ''type'' of
             Inl e \<Rightarrow> None
           | Inr ty \<Rightarrow>
               Some (''- ['' @ template ty @ ''] '' @ template (opt_prop (Some r) ''context'')
                     @ '': '' @ template (opt_prop (Some r) ''lesson'')
                     @ (if truthy (opt_prop (Some r) ''action'')
                        then '' '' @ arrow @ '' '' @ template (opt_prop (Some r) ''action'')
                        else []))))"

text \<open>\<open>xs.filter(Boolean)\<close> on strings and \<open>null\<close>: \<open>null\<close> and the empty string go.\<close>

fun filter_Boolean :: "string option list \<Rightarrow> string list" where
  "filter_Boolean [] = []"
| "filter_Boolean (None # xs) = filter_Boolean xs"
| "filter_Boolean (Some s # xs) = (if s = [] then filter_Boolean xs else s # filter_Boolean xs)"

text \<open>\<open>xs.slice(-n)\<close>.\<close>

definition slice_last :: "nat \<Rightarrow> 'a list \<Rightarrow> 'a list" where
  "slice_last n xs = drop (length xs - n) xs"

definition reflectionsSection :: "(string \<Rightarrow> json option) \<Rightarrow> string option \<Rightarrow> string option" where
  "reflectionsSection parse file =
     (case file of
        None \<Rightarrow> None
      | Some raw \<Rightarrow>
          (let content = trim raw
           in if content = [] then None
              else (let lines = filter (\<lambda>l. trim l \<noteq> []) (split_lines content);
                        recent = slice_last 10 lines
                    in if recent = [] then None
                       else (let formatted = join [NL] (filter_Boolean (map (formatReflection parse) recent))
                             in if formatted \<noteq> [] then Some (''## Recent Reflections'' @ [NL] @ formatted)
                                else None))))"

fun option_list :: "'a option \<Rightarrow> 'a list" where
  "option_list None = []"
| "option_list (Some x) = [x]"

definition loadMemoryContext ::
  "(string \<Rightarrow> json option) \<Rightarrow> memory_files \<Rightarrow> string \<Rightarrow> string" where
  "loadMemoryContext parse mem userMessage =
     (if \<not> memoryDirExists mem then []
      else (let sections = option_list (knowledgeSection (knowledge_md mem))
                  @ option_list (reflectionsSection parse (reflections_jsonl mem))
                  @ option_list (episodesSection mem userMessage)
                  @ option_list (skillsSection mem userMessage)
            in if sections = [] then []
               else ''[MEMORY]'' @ [NL] @ join [NL, NL] sections @ [NL] @ ''[/MEMORY]'' @ [NL, NL]))"

section \<open>Worker invoker (\<open>invokeAgent\<close>)\<close>

text \<open>
  The JSONL loop of the Codex branch: the value of \<open>response\<close> after the loop. A line that
  does not parse, or parses to \<open>null\<close>, throws inside the \<open>try\<close> and is ignored.
\<close>

definition codexLine :: "(string \<Rightarrow> json option) \<Rightarrow> string \<Rightarrow> json option \<Rightarrow> json option" where
  "codexLine parse line response =
     (case parse line of
        None \<Rightarrow> response
      | Some json \<Rightarrow>
          (case getProp json ''type'' of
             Inl e \<Rightarrow> response
           | Inr ty \<Rightarrow>
               if ty = Some (JStr ''item.completed'')
                  \<and> opt_prop (opt_prop (Some json) ''item'') ''type'' = Some (JStr ''agent_message'')
               then opt_prop (opt_prop (Some json) ''item'') ''text''
               else response))"

definition codexFallback :: string where
  "codexFallback = ''Sorry, I could not generate a response from Codex.''"

text \<open>\<open>response || '...'\<close>, the value the Codex branch returns.\<close>

definition codexResponse :: "(string \<Rightarrow> json option) \<Rightarrow> string \<Rightarrow> json" where
  "codexResponse parse codexOutput =
     (let response = fold (codexLine parse) (split_lines (trim codexOutput)) (Some (JStr []))
      in (case response of
            None \<Rightarrow> JStr codexFallback
          | Some v \<Rightarrow> if truthy (Some v) then v else JStr codexFallback))"

text \<open>
  \<open>invokeAgent\<close> is declared to return a string. The \<open>text\<close> of a Codex event is whatever
  the event stream holds; the model keeps the declared type by printing a value that is
  not a string.
\<close>

fun typed_string :: "json \<Rightarrow> string" where
  "typed_string (JStr s) = s"
| "typed_string v = js_String v"

section \<open>Data model of the dispatcher\<close>

record AgentConfig =
  agent_name :: string
  agent_provider :: string
  agent_model :: string
  agent_working_directory :: "string option"

record TeamConfig =
  team_name :: string
  team_agents :: "string list"
  team_leader_agent :: string

text \<open>
  \<open>MessageData\<close> as \<open>processMessage\<close> uses it; \<open>msg_message\<close> and \<open>msg_agent\<close> are \<open>None\<close>
  when the key is absent from the file.
\<close>

record MessageData =
  msg_channel :: string
  msg_sender :: string
  msg_message :: "string option"
  msg_timestamp :: nat
  msg_messageId :: string
  msg_agent :: "string option"

record ResponseData =
  resp_channel :: string
  resp_sender :: string
  resp_message :: string
  resp_originalMessage :: string
  resp_timestamp :: nat
  resp_messageId :: string
  resp_agent :: "string option"
  resp_files :: "string list option"

record ChainStep =
  step_agentId :: string
  step_response :: string

text \<open>The results of \<open>lib/routing\<close>.\<close>

record Routing =
  routing_agentId :: string
  routing_message :: string
  routing_isTeam :: bool

record Mention =
  mention_teammateId :: string
  mention_message :: string

type_synonym agent_table = "(string \<times> AgentConfig) list"
type_synonym team_table = "(string \<times> TeamConfig) list"

text \<open>
  What the dispatcher takes from the modules \<open>lib/config\<close> and \<open>lib/routing\<close>, from
  the JavaScript runtime and from the operating system. The tables
  list their keys in the order of \<open>Object.keys\<close>. \<open>runCommand\<close> and \<open>memoryFiles\<close> take the
  number of subprocesses launched so far, so that two launches with the same arguments
  may answer differently.
\<close>

record env =
  getAgents :: agent_table
  getTeams :: team_table
  workspacePath :: string
  RESET_FLAG :: string
  FILES_DIR :: string
  JSON_parse :: "string \<Rightarrow> json option"
  parseMessageData :: "string \<Rightarrow> MessageData option"
  parseAgentRouting :: "string \<Rightarrow> agent_table \<Rightarrow> team_table \<Rightarrow> Routing"
  findTeamForAgent :: "string \<Rightarrow> team_table \<Rightarrow> (string \<times> TeamConfig) option"
  getAgentResetFlag :: "string \<Rightarrow> string \<Rightarrow> string"
  extractTeammateMentions ::
    "string \<Rightarrow> string \<Rightarrow> string \<Rightarrow> team_table \<Rightarrow> agent_table \<Rightarrow> Mention list"
  resolveClaudeModel :: "string \<Rightarrow> string"
  resolveCodexModel :: "string \<Rightarrow> string"
  memoryFiles :: "nat \<Rightarrow> string \<Rightarrow> memory_files"
  runCommand :: "nat \<Rightarrow> string \<Rightarrow> string list \<Rightarrow> string \<Rightarrow> js_error + string"
  dateNow :: nat
  isoDate :: string
  mtimeMs :: "string \<Rightarrow> nat"
  localeCompare :: "string \<Rightarrow> string \<Rightarrow> int"

text \<open>
  The state the dispatcher works on: the three queue directories (file name to content;
  an outgoing file holds the record that \<open>JSON.stringify\<close> writes), the transcripts under
  \<open>CHATS_DIR\<close>, the reports under \<open>FILES_DIR\<close>, the other paths that exist (reset flags,
  attachments), the subprocesses launched so far, and the two in-memory tables of
  \<open>queue-processor.ts\<close>. A promise chain of \<open>agentProcessingChains\<close> is the list of the
  files whose tasks it still has to run, first to run first.
\<close>

record world =
  incoming :: "(string \<times> string) list"
  processing :: "(string \<times> string) list"
  outgoing :: "(string \<times> ResponseData) list"
  chats :: "(string \<times> string) list"
  filesDir :: "(string \<times> string) list"
  paths :: "string list"
  spawned :: "(string \<times> string list \<times> string) list"
  queuedFiles :: "string list"
  agentProcessingChains :: "(string \<times> string list) list"

definition existsSync :: "world \<Rightarrow> string \<Rightarrow> bool" where
  "existsSync w p = (p \<in> set (paths w))"

definition unlinkSync :: "string \<Rightarrow> world \<Rightarrow> world" where
  "unlinkSync p w = w\<lparr>paths := removeAll p (paths w)\<rparr>"

text \<open>
  \<open>fs.renameSync\<close> between two directories: \<open>ENOENT\<close> when the source has no such file,
  otherwise the file leaves the source and replaces any file of that name in the target.
\<close>

definition renameSync ::
  "string \<Rightarrow> (string \<times> 'a) list \<Rightarrow> (string \<times> 'a) list
     \<Rightarrow> js_error + ((string \<times> 'a) list \<times> (string \<times> 'a) list)" where
  "renameSync f src dst =
     (case map_of src f of
        None \<Rightarrow> Inl ENOENT
      | Some c \<Rightarrow> Inr (AList.delete f src, AList.update f c dst))"

definition path_join :: "string \<Rightarrow> string \<Rightarrow> string" where
  "path_join a b = a @ ''/'' @ b"

definition isAbsolute :: "string \<Rightarrow> bool" where
  "isAbsolute p = (strip_prefix ''/'' p \<noteq> None)"

definition invokeAgent ::
  "env \<Rightarrow> AgentConfig \<Rightarrow> string \<Rightarrow> string \<Rightarrow> bool \<Rightarrow> world \<Rightarrow> (js_error + string) \<times> world" where
  "invokeAgent E agent aid message0 shouldReset w =
     (let agentDir = path_join (workspacePath E) aid;
          workingDir =
            (case agent_working_directory agent of
               None \<Rightarrow> agentDir
             | Some d \<Rightarrow> if d = [] then agentDir
                         else if isAbsolute d then d else path_join (workspacePath E) d);
          memoryContext =
            loadMemoryContext (JSON_parse E) (memoryFiles E (length (spawned w)) workingDir) message0;
          message1 = (if memoryContext \<noteq> [] then memoryContext @ message0 else message0);
          provider = (if agent_provider agent = [] then ''anthropic'' else agent_provider agent)
      in if provider = ''openai'' then
           (let shouldResume = \<not> shouldReset;
                modelId = resolveCodexModel E (agent_model agent);
                codexArgs = [''exec'']
                  @ (if shouldResume then [''resume'', ''--last''] else [])
                  @ (if modelId \<noteq> [] then [''--model'', modelId] else [])
                  @ [''--skip-git-repo-check'', ''--dangerously-bypass-approvals-and-sandbox'',
                     ''--json'', message1];
                w' = w\<lparr>spawned := spawned w @ [(''codex'', codexArgs, workingDir)]\<rparr>
            in (case runCommand E (length (spawned w)) ''codex'' codexArgs workingDir of
                  Inl e \<Rightarrow> (Inl e, w')
                | Inr codexOutput \<Rightarrow>
                    (Inr (typed_string (codexResponse (JSON_parse E) codexOutput)), w')))
         else
           (let continueConversation = \<not> shouldReset;
                modelId = resolveClaudeModel E (agent_model agent);
                claudeArgs = [''--dangerously-skip-permissions'']
                  @ (if modelId \<noteq> [] then [''--model'', modelId] else [])
                  @ (if continueConversation then [''-c''] else [])
                  @ [''-p'', message1];
                w' = w\<lparr>spawned := spawned w @ [(''claude'', claudeArgs, workingDir)]\<rparr>
            in (runCommand E (length (spawned w)) ''claude'' claudeArgs workingDir, w')))"

section \<open>Team chain (\<open>processMessage\<close>, lines 163-329)\<close>

definition stepError :: string where
  "stepError = ''Sorry, I encountered an error processing this request.''"

text \<open>
  The fan-out of lines 240-263: the mentioned teammates in input order. The subprocesses
  run concurrently in the program; the model launches them one after the other.
\<close>

fun fanOut :: "env \<Rightarrow> string \<Rightarrow> Mention list \<Rightarrow> world \<Rightarrow> ChainStep list \<times> world" where
  "fanOut E currentAgentId [] w = ([], w)"
| "fanOut E currentAgentId (mention # ms) w =
     (case map_of (getAgents E) (mention_teammateId mention) of
        None \<Rightarrow>
          (let (rs, w') = fanOut E currentAgentId ms w
           in (\<lparr>step_agentId = mention_teammateId mention,
                step_response = ''Error: agent '' @ mention_teammateId mention @ '' not found''\<rparr> # rs,
               w'))
      | Some mAgent \<Rightarrow>
          (let mResetFlag = getAgentResetFlag E (mention_teammateId mention) (workspacePath E);
               mShouldReset = existsSync w mResetFlag;
               w1 = (if mShouldReset then unlinkSync mResetFlag w else w);
               mMessage = ''[Message from teammate @'' @ currentAgentId @ '']:'' @ [NL]
                          @ mention_message mention;
               (r, w2) = invokeAgent E mAgent (mention_teammateId mention) mMessage mShouldReset w1;
               mResponse = (case r of Inr out \<Rightarrow> out | Inl e \<Rightarrow> stepError);
               (rs, w3) = fanOut E currentAgentId ms w2
           in (\<lparr>step_agentId = mention_teammateId mention, step_response = mResponse\<rparr> # rs, w3)))"

text \<open>
  The loop \<open>while (true)\<close> of lines 172-281, with the number of iterations it may still
  make: \<open>None\<close> when they do not suffice. It returns \<open>chainSteps\<close> and \<open>allFiles\<close>.
\<close>

fun chainLoop ::
  "nat \<Rightarrow> env \<Rightarrow> string \<Rightarrow> bool \<Rightarrow> ChainStep list \<Rightarrow> string list \<Rightarrow> string \<Rightarrow> string \<Rightarrow> world
     \<Rightarrow> ((ChainStep list \<times> string list) \<times> world) option" where
  "chainLoop 0 E teamId shouldReset chainSteps allFiles currentAgentId currentMessage w = None"
| "chainLoop (Suc n) E teamId shouldReset chainSteps allFiles currentAgentId currentMessage w =
     (case map_of (getAgents E) currentAgentId of
        None \<Rightarrow> Some ((chainSteps, allFiles), w)
      | Some currentAgent \<Rightarrow>
          (let currentResetFlag = getAgentResetFlag E currentAgentId (workspacePath E);
               currentShouldReset =
                 (if chainSteps = [] then shouldReset else existsSync w currentResetFlag);
               w1 = (if currentShouldReset \<and> existsSync w currentResetFlag
                     then unlinkSync currentResetFlag w else w);
               (r, w2) = invokeAgent E currentAgent currentAgentId currentMessage currentShouldReset w1;
               stepResponse = (case r of Inr out \<Rightarrow> out | Inl e \<Rightarrow> stepError);
               chainSteps1 = chainSteps @ [\<lparr>step_agentId = currentAgentId, step_response = stepResponse\<rparr>];
               allFiles1 = collectFiles (existsSync w2) allFiles stepResponse;
               teammateMentions =
                 extractTeammateMentions E stepResponse currentAgentId teamId (getTeams E) (getAgents E)
           in (case teammateMentions of
                 [] \<Rightarrow> Some ((chainSteps1, allFiles1), w2)
               | [mention] \<Rightarrow>
                   chainLoop n E teamId shouldReset chainSteps1 allFiles1 (mention_teammateId mention)
                     (''[Message from teammate @'' @ step_agentId (last chainSteps1) @ '']:'' @ [NL]
                      @ mention_message mention) w2
               | _ \<Rightarrow>
                   (let (fanOutResults, w3) = fanOut E currentAgentId teammateMentions w2
                    in Some ((chainSteps1 @ fanOutResults,
                              fold (\<lambda>result fs. collectFiles (existsSync w3) fs (step_response result))
                                   fanOutResults allFiles1), w3)))))"

text \<open>Lines 283-290: the final response of a chain.\<close>

definition stepSeparator :: string where
  "stepSeparator = [NL, NL] @ ''---'' @ [NL, NL]"

definition aggregateSteps :: "ChainStep list \<Rightarrow> string" where
  "aggregateSteps chainSteps =
     (if length chainSteps = 1 then step_response (chainSteps ! 0)
      else join stepSeparator
             (map (\<lambda>step. ''@'' @ step_agentId step @ '': '' @ step_response step) chainSteps))"

text \<open>Lines 292-328: the transcript written under \<open>CHATS_DIR/<teamId>/\<close>.\<close>

fun replace_first :: "char \<Rightarrow> string \<Rightarrow> string \<Rightarrow> string" where
  "replace_first p r [] = []"
| "replace_first p r (c # cs) = (if c = p then r @ cs else c # replace_first p r cs)"

definition chatFilename :: "string \<Rightarrow> string" where
  "chatFilename stamp =
     replace_first CHR ''Z'' []
       (replace_first CHR ''T'' ''_''
          (map (\<lambda>c. if c = CHR '':'' \<or> c = CHR ''.'' then CHR ''-'' else c) stamp)) @ ''.md''"

definition chatLines ::
  "env \<Rightarrow> string \<Rightarrow> TeamConfig \<Rightarrow> MessageData \<Rightarrow> string \<Rightarrow> ChainStep list \<Rightarrow> string list" where
  "chatLines E teamId team messageData rawMessage chainSteps =
     [''# Team Chain: '' @ team_name team @ '' (@'' @ teamId @ '')'',
      ''**Date:** '' @ isoDate E,
      ''**Channel:** '' @ msg_channel messageData @ '' | **Sender:** '' @ msg_sender messageData,
      ''**Steps:** '' @ show_nat (length chainSteps),
      [], ''---'', [], ''## User Message'', [], rawMessage, []]
     @ concat (map (\<lambda>(i, step).
         (let stepLabel =
                (case map_of (getAgents E) (step_agentId step) of
                   Some stepAgent \<Rightarrow> agent_name stepAgent @ '' (@'' @ step_agentId step @ '')''
                 | None \<Rightarrow> ''@'' @ step_agentId step)
          in [''---'', [], ''## Step '' @ show_nat (i + 1) @ '': '' @ stepLabel, [],
              step_response step, []]))
         (List.enumerate 0 chainSteps))"

definition saveChatHistory ::
  "env \<Rightarrow> string \<Rightarrow> TeamConfig \<Rightarrow> MessageData \<Rightarrow> string \<Rightarrow> ChainStep list \<Rightarrow> world \<Rightarrow> world" where
  "saveChatHistory E teamId team messageData rawMessage chainSteps w =
     w\<lparr>chats := AList.update (path_join teamId (chatFilename (isoDate E)))
                   (join [NL] (chatLines E teamId team messageData rawMessage chainSteps))
                   (chats w)\<rparr>"

section \<open>Dispatcher (\<open>processMessage\<close>)\<close>

text \<open>Lines 70-85: the pre-routed agent, or the prefix parsed by \<open>parseAgentRouting\<close>.\<close>

definition routeMessage :: "env \<Rightarrow> MessageData \<Rightarrow> string \<Rightarrow> string \<times> string \<times> bool" where
  "routeMessage E messageData rawMessage =
     (case (case msg_agent messageData of
              None \<Rightarrow> None
            | Some a \<Rightarrow> if a \<noteq> [] \<and> map_of (getAgents E) a \<noteq> None then Some a else None) of
        Some a \<Rightarrow> (a, rawMessage, False)
      | None \<Rightarrow>
          (let routing = parseAgentRouting E rawMessage (getAgents E) (getTeams E)
           in (routing_agentId routing, routing_message routing, routing_isTeam routing)))"

text \<open>Lines 87-106: the response written when routing yields the agent id \<open>error\<close>.\<close>

definition easterEgg :: "env \<Rightarrow> string \<Rightarrow> MessageData \<Rightarrow> string \<Rightarrow> string \<Rightarrow> world \<Rightarrow> world" where
  "easterEgg E f messageData rawMessage routed w =
     (let responseData =
            \<lparr>resp_channel = msg_channel messageData, resp_sender = msg_sender messageData,
             resp_message = routed, resp_originalMessage = rawMessage,
             resp_timestamp = dateNow E, resp_messageId = msg_messageId messageData,
             resp_agent = None, resp_files = None\<rparr>
      in w\<lparr>outgoing := AList.update f responseData (outgoing w),
           processing := AList.delete f (processing w)\<rparr>)"

text \<open>Lines 123-138: the team a message runs in, if any.\<close>

definition teamContextOf :: "env \<Rightarrow> string \<Rightarrow> bool \<Rightarrow> (string \<times> TeamConfig) option" where
  "teamContextOf E aid isTeamRouted =
     (case (if isTeamRouted
            then find (\<lambda>(tid, t). team_leader_agent t = aid \<and> aid \<in> set (team_agents t)) (getTeams E)
            else None) of
        Some tc \<Rightarrow> Some tc
      | None \<Rightarrow> findTeamForAgent E aid (getTeams E))"

definition singleError :: string where
  "singleError = ''Sorry, I encountered an error processing your request. Please check the queue logs.''"

text \<open>
  Lines 331-377: the attachments and the final text of a response, the response file and
  the removal of the processing file.
\<close>

definition outboundFilesOf :: "world \<Rightarrow> string list \<Rightarrow> string \<Rightarrow> string list" where
  "outboundFilesOf w allFiles finalResponse = collectFiles (existsSync w) allFiles (trim finalResponse)"

definition strippedText :: "world \<Rightarrow> string list \<Rightarrow> string \<Rightarrow> string" where
  "strippedText w allFiles finalResponse =
     (if outboundFilesOf w allFiles finalResponse \<noteq> []
      then trim (stripFileRefs (trim finalResponse))
      else trim finalResponse)"

definition finalText :: "world \<Rightarrow> string list \<Rightarrow> string \<Rightarrow> string" where
  "finalText w allFiles finalResponse = limitResponse (strippedText w allFiles finalResponse)"

definition responseFileName :: "env \<Rightarrow> MessageData \<Rightarrow> string" where
  "responseFileName E messageData =
     (if msg_channel messageData = ''heartbeat'' then msg_messageId messageData @ ''.json''
      else msg_channel messageData @ ''_'' @ msg_messageId messageData @ ''_''
           @ show_nat (dateNow E) @ ''.json'')"

definition writeResponse ::
  "env \<Rightarrow> string \<Rightarrow> MessageData \<Rightarrow> string \<Rightarrow> string \<Rightarrow> string list \<Rightarrow> string \<Rightarrow> world \<Rightarrow> world" where
  "writeResponse E f messageData rawMessage aid allFiles finalResponse w =
     (let outboundFiles = outboundFilesOf w allFiles finalResponse;
          responseData =
            \<lparr>resp_channel = msg_channel messageData, resp_sender = msg_sender messageData,
             resp_message = finalText w allFiles finalResponse, resp_originalMessage = rawMessage,
             resp_timestamp = dateNow E, resp_messageId = msg_messageId messageData,
             resp_agent = Some aid,
             resp_files = (if outboundFiles \<noteq> [] then Some outboundFiles else None)\<rparr>
      in w\<lparr>outgoing := AList.update (responseFileName E messageData) responseData (outgoing w),
           processing := AList.delete f (processing w)\<rparr>)"

datatype outcome = Completed | Caught js_error

text \<open>
  Lines 70-377, once the message is parsed. \<open>Object.keys(agents)[0]\<close> is \<open>undefined\<close> when
  no agent is configured, and reading \<open>agent.name\<close> then throws.
\<close>

definition runRouted ::
  "nat \<Rightarrow> env \<Rightarrow> string \<Rightarrow> MessageData \<Rightarrow> string \<Rightarrow> world \<Rightarrow> ((js_error + unit) \<times> world) option" where
  "runRouted fuel E f messageData rawMessage w =
     (let (agentId0, message0, isTeamRouted) = routeMessage E messageData rawMessage
      in if agentId0 = ''error'' then Some (Inr (), easterEgg E f messageData rawMessage message0 w)
         else
           (let (agentId1, message1) =
                  (if map_of (getAgents E) agentId0 = None then (''default'', rawMessage)
                   else (agentId0, message0));
                agentId2 =
                  (if map_of (getAgents E) agentId1 = None
                   then (case getAgents E of [] \<Rightarrow> None | (k, a) # r \<Rightarrow> Some k)
                   else Some agentId1)
            in (case (case agentId2 of
                        None \<Rightarrow> None
                      | Some k \<Rightarrow> map_option (Pair k) (map_of (getAgents E) k)) of
                  None \<Rightarrow> Some (Inl TypeError, w)
                | Some (aid, agent) \<Rightarrow>
                    (let teamContext = teamContextOf E aid isTeamRouted;
                         agentResetFlag = getAgentResetFlag E aid (workspacePath E);
                         shouldReset = (existsSync w (RESET_FLAG E) \<or> existsSync w agentResetFlag);
                         w1 = (if shouldReset
                               then unlinkSync agentResetFlag (unlinkSync (RESET_FLAG E) w) else w)
                     in (case teamContext of
                           None \<Rightarrow>
                             (let (r, w2) = invokeAgent E agent aid message1 shouldReset w1;
                                  finalResponse = (case r of Inr out \<Rightarrow> out | Inl e \<Rightarrow> singleError)
                              in Some (Inr (),
                                       writeResponse E f messageData rawMessage aid [] finalResponse w2))
                         | Some (teamId, team) \<Rightarrow>
                             (case chainLoop fuel E teamId shouldReset [] [] aid message1 w1 of
                                None \<Rightarrow> None
                              | Some ((chainSteps, allFiles), w2) \<Rightarrow>
                                  Some (Inr (),
                                        writeResponse E f messageData rawMessage aid allFiles
                                          (aggregateSteps chainSteps)
                                          (saveChatHistory E teamId team messageData rawMessage
                                             chainSteps w2))))))))"

text \<open>
  The \<open>try\<close> block of \<open>processMessage\<close> for the file \<open>f\<close> of the incoming directory:
  the error thrown, if any, with the state it leaves.
\<close>

definition processBody ::
  "nat \<Rightarrow> env \<Rightarrow> string \<Rightarrow> world \<Rightarrow> ((js_error + unit) \<times> world) option" where
  "processBody fuel E f w =
     (case renameSync f (incoming w) (processing w) of
        Inl e \<Rightarrow> Some (Inl e, w)
      | Inr (inc, proc) \<Rightarrow>
          (let w1 = w\<lparr>incoming := inc, processing := proc\<rparr>
           in (case map_of proc f of
                 None \<Rightarrow> Some (Inl ENOENT, w1)
               | Some raw \<Rightarrow>
                   (case parseMessageData E raw of
                      None \<Rightarrow> Some (Inl SyntaxError, w1)
                    | Some messageData \<Rightarrow>
                        (case msg_message messageData of
                           None \<Rightarrow> Some (Inl TypeError, w1)
                         | Some rawMessage \<Rightarrow> runRouted fuel E f messageData rawMessage w1)))))"

text \<open>Lines 379-390: the \<open>catch\<close> block.\<close>

definition moveBack :: "string \<Rightarrow> world \<Rightarrow> world" where
  "moveBack f w =
     (if map_of (processing w) f \<noteq> None
      then (case renameSync f (processing w) (incoming w) of
              Inl e \<Rightarrow> w
            | Inr (proc, inc) \<Rightarrow> w\<lparr>incoming := inc, processing := proc\<rparr>)
      else w)"

definition processMessage :: "nat \<Rightarrow> env \<Rightarrow> string \<Rightarrow> world \<Rightarrow> (outcome \<times> world) option" where
  "processMessage fuel E f w =
     (case processBody fuel E f w of
        None \<Rightarrow> None
      | Some (Inr u, w1) \<Rightarrow> Some (Completed, w1)
      | Some (Inl e, w1) \<Rightarrow> Some (Caught e, moveBack f w1))"

section \<open>Queue (\<open>recoverOrphanedFiles\<close>, \<open>peekAgentId\<close>, \<open>processQueue\<close>)\<close>

text \<open>
  The body of the loop of \<open>recoverOrphanedFiles\<close>: the rename, whose error is caught and
  logged.
\<close>

definition recoverFile :: "string \<Rightarrow> world \<Rightarrow> world" where
  "recoverFile f w =
     (case renameSync f (processing w) (incoming w) of
        Inl e \<Rightarrow> w
      | Inr (proc, inc) \<Rightarrow> w\<lparr>incoming := inc, processing := proc\<rparr>)"

definition recoverOrphanedFiles :: "world \<Rightarrow> world" where
  "recoverOrphanedFiles w =
     fold recoverFile (filter (\<lambda>f. endsWith f ''.json'') (map fst (processing w))) w"

definition peekAgentId :: "env \<Rightarrow> world \<Rightarrow> string \<Rightarrow> string" where
  "peekAgentId E w f =
     (case map_of (incoming w) f of
        None \<Rightarrow> ''default''
      | Some raw \<Rightarrow>
          (case parseMessageData E raw of
             None \<Rightarrow> ''default''
           | Some messageData \<Rightarrow>
               (case (case msg_agent messageData of
                        None \<Rightarrow> None
                      | Some a \<Rightarrow> if a \<noteq> [] \<and> map_of (getAgents E) a \<noteq> None then Some a else None) of
                  Some a \<Rightarrow> a
                | None \<Rightarrow>
                    (let routing = parseAgentRouting E
                           (case msg_message messageData of None \<Rightarrow> [] | Some m \<Rightarrow> m)
                           (getAgents E) (getTeams E)
                     in if routing_agentId routing \<noteq> [] then routing_agentId routing
                        else ''default''))))"

text \<open>
  The body of the loop of \<open>processQueue\<close> (lines 437-467) for one file: the task is
  appended to the chain of its key.
\<close>

definition enqueueFile :: "env \<Rightarrow> string \<Rightarrow> world \<Rightarrow> world" where
  "enqueueFile E f w =
     (if f \<in> set (queuedFiles w) then w
      else (let aid = peekAgentId E w f;
                currentChain = (case map_of (agentProcessingChains w) aid of None \<Rightarrow> [] | Some ts \<Rightarrow> ts)
            in w\<lparr>queuedFiles := set_add f (queuedFiles w),
                 agentProcessingChains := AList.update aid (currentChain @ [f]) (agentProcessingChains w)\<rparr>))"

definition processQueue :: "env \<Rightarrow> world \<Rightarrow> world" where
  "processQueue E w =
     fold (enqueueFile E)
          (sort_key (mtimeMs E) (filter (\<lambda>f. endsWith f ''.json'') (map fst (incoming w)))) w"

text \<open>
  One task of a chain settles: \<open>.then(() => processMessage(file.path))\<close>, then the
  \<open>.finally\<close> that releases the file name, then the \<open>.finally\<close> that drops a chain with no
  task left. \<open>None\<close> when \<open>processMessage\<close> does not return.
\<close>

definition settleTask :: "nat \<Rightarrow> env \<Rightarrow> string \<Rightarrow> world \<Rightarrow> (outcome \<times> world) option" where
  "settleTask fuel E f w =
     (case processMessage fuel E f w of
        None \<Rightarrow> None
      | Some (oc, w1) \<Rightarrow> Some (oc, w1\<lparr>queuedFiles := removeAll f (queuedFiles w1)\<rparr>))"

definition settleNext :: "nat \<Rightarrow> env \<Rightarrow> string \<Rightarrow> world \<Rightarrow> world option" where
  "settleNext fuel E aid w =
     (case map_of (agentProcessingChains w) aid of
        None \<Rightarrow> Some w
      | Some [] \<Rightarrow> Some (w\<lparr>agentProcessingChains := AList.delete aid (agentProcessingChains w)\<rparr>)
      | Some (f # ts) \<Rightarrow>
          (case settleTask fuel E f w of
             None \<Rightarrow> None
           | Some (oc, w1) \<Rightarrow>
               Some (w1\<lparr>agentProcessingChains :=
                          (if ts = [] then AList.delete aid (agentProcessingChains w1)
                           else AList.update aid ts (agentProcessingChains w1))\<rparr>)))"

text \<open>
  The program: recovery, then the interval timer. What happens after start-up is a
  sequence of polling ticks and of tasks settling.
\<close>

datatype event = Tick | Settle string

fun runEvents :: "nat \<Rightarrow> env \<Rightarrow> event list \<Rightarrow> world \<Rightarrow> world option" where
  "runEvents fuel E [] w = Some w"
| "runEvents fuel E (Tick # evs) w = runEvents fuel E evs (processQueue E w)"
| "runEvents fuel E (Settle aid # evs) w =
     (case settleNext fuel E aid w of None \<Rightarrow> None | Some w1 \<Rightarrow> runEvents fuel E evs w1)"

definition startup :: "world \<Rightarrow> world" where
  "startup w = recoverOrphanedFiles (w\<lparr>queuedFiles := [], agentProcessingChains := []\<rparr>)"

definition queueProcessor :: "nat \<Rightarrow> env \<Rightarrow> event list \<Rightarrow> world \<Rightarrow> world option" where
  "queueProcessor fuel E events w = runEvents fuel E events (startup w)"

section \<open>Swarm output (\<open>sendFinalResponse\<close>)\<close>

record SwarmJobContext =
  ctx_channel :: string
  ctx_sender :: string
  ctx_messageId :: string
  ctx_originalMessage :: string

definition attachedNotice :: string where
  "attachedNotice = [NL, NL] @ ''_(Full swarm report attached as file)_''"

definition swarmReportPath :: "env \<Rightarrow> string" where
  "swarmReportPath E = path_join (FILES_DIR E) (''swarm_result_'' @ show_nat (dateNow E) @ ''.md'')"

definition swarmResponseName :: "env \<Rightarrow> SwarmJobContext \<Rightarrow> string" where
  "swarmResponseName E ctx =
     ''swarm_result_'' @ ctx_messageId ctx @ ''_'' @ show_nat (dateNow E) @ ''.json''"

definition sendFinalResponse :: "env \<Rightarrow> SwarmJobContext \<Rightarrow> string \<Rightarrow> world \<Rightarrow> world" where
  "sendFinalResponse E ctx response w =
     (let filePath = swarmReportPath E;
          long = (length response > 4000);
          w1 = (if long then w\<lparr>filesDir := AList.update filePath response (filesDir w)\<rparr> else w);
          responseData =
            \<lparr>resp_channel = ctx_channel ctx, resp_sender = ctx_sender ctx,
             resp_message = (if long then take 4000 response @ attachedNotice else response),
             resp_originalMessage = ctx_originalMessage ctx,
             resp_timestamp = dateNow E, resp_messageId = ctx_messageId ctx,
             resp_agent = None,
             resp_files = (if long then Some [filePath] else None)\<rparr>
      in w1\<lparr>outgoing := AList.update (swarmResponseName E ctx) responseData (outgoing w1)\<rparr>)"

text \<open>The message and the attachments of a response file of the outgoing directory.\<close>

definition messageAt :: "world \<Rightarrow> string \<Rightarrow> string option" where
  "messageAt w n = map_option resp_message (map_of (outgoing w) n)"

definition filesAt :: "world \<Rightarrow> string \<Rightarrow> string list option option" where
  "filesAt w n = map_option resp_files (map_of (outgoing w) n)"

section \<open>Shuffle (\<open>swarm/shuffle.ts\<close>)\<close>

record ShuffleConfig =
  key_field :: string
  multi_key :: "string option"
  max_partition_size :: "nat option"
  reduce_prompt :: "string option"
  merge_prompt :: "string option"

record ReduceConfig =
  reduce_config_prompt :: "string option"
  reduce_config_agent :: "string option"

record SwarmConfig =
  swarm_shuffle :: "ShuffleConfig option"
  swarm_reduce :: "ReduceConfig option"

record ShuffleResult =
  partitions :: "(string \<times> string list) list"
  unkeyed :: "string list"
  totalItems :: nat
  duplicatedItems :: nat

definition default_max_partition_size :: nat where
  "default_max_partition_size = 200"

definition hierarchical_reduce_fanin :: nat where
  "hierarchical_reduce_fanin = 20"

text \<open>\<open>typeof v === 'object'\<close>, and the filter \<open>item && typeof item === 'object'\<close>.\<close>

fun typeof_object :: "json \<Rightarrow> bool" where
  "typeof_object JNull = True"
| "typeof_object (JArr xs) = True"
| "typeof_object (JObj kvs) = True"
| "typeof_object v = False"

definition objectItems :: "json list \<Rightarrow> json list" where
  "objectItems xs = filter (\<lambda>item. truthy (Some item) \<and> typeof_object item) xs"

text \<open>
  \<^verbatim>\<open>result.match(/\[[\s\S]*\]/)\<close>: from the first \<^verbatim>\<open>[\<close> to the last \<^verbatim>\<open>]\<close> after it.
\<close>

definition bracketMatch :: "string \<Rightarrow> string option" where
  "bracketMatch s =
     (let r = dropWhile (\<lambda>c. c \<noteq> CHR ''['') s
      in if r = [] \<or> CHR '']'' \<notin> set (tl r) then None
         else Some (rev (dropWhile not_close (rev r))))"

text \<open>The body of the loop of \<open>parseMapOutputs\<close>: the items of one batch result.\<close>

definition parseMapOutput :: "(string \<Rightarrow> json option) \<Rightarrow> string \<Rightarrow> json list" where
  "parseMapOutput parse result =
     (case (case parse (trim result) of
              None \<Rightarrow> None
            | Some (JArr xs) \<Rightarrow> Some (objectItems xs)
            | Some v \<Rightarrow> if typeof_object v then Some [v] else None) of
        Some items \<Rightarrow> items
      | None \<Rightarrow>
          (case (case bracketMatch result of
                   None \<Rightarrow> None
                 | Some m \<Rightarrow> (case parse m of Some (JArr xs) \<Rightarrow> Some (objectItems xs) | _ \<Rightarrow> None)) of
             Some items \<Rightarrow> items
           | None \<Rightarrow>
               concat (map (\<lambda>line.
                 (let trimmed = trim line
                  in if strip_prefix ''{'' trimmed \<noteq> None
                     then (case parse trimmed of
                             None \<Rightarrow> []
                           | Some v \<Rightarrow> if typeof_object v then [v] else [])
                     else [])) (split_lines result))))"

definition parseMapOutputs :: "(string \<Rightarrow> json option) \<Rightarrow> string list \<Rightarrow> json list" where
  "parseMapOutputs parse batchResults = concat (map (parseMapOutput parse) batchResults)"

text \<open>\<open>toLowerCase()\<close> on the letters of ASCII.\<close>

definition lower_char :: "char \<Rightarrow> char" where
  "lower_char c =
     (if 65 \<le> (of_char c :: nat) \<and> (of_char c :: nat) \<le> 90 then char_of (of_char c + 32 :: nat) else c)"

definition keyOf :: "json \<Rightarrow> string" where
  "keyOf v = trim (map lower_char (js_String v))"

definition extractKeys :: "json \<Rightarrow> string \<Rightarrow> js_error + string list" where
  "extractKeys item keyField =
     (case getProp item keyField of
        Inl e \<Rightarrow> Inl e
      | Inr None \<Rightarrow> Inr []
      | Inr (Some JNull) \<Rightarrow> Inr []
      | Inr (Some (JArr vs)) \<Rightarrow> Inr (filter (\<lambda>k. k \<noteq> []) (map keyOf vs))
      | Inr (Some v) \<Rightarrow> Inr (filter (\<lambda>k. k \<noteq> []) [keyOf v]))"

text \<open>
  A JavaScript \<open>Map\<close> keeps its keys in insertion order: \<open>AList.update\<close> replaces the value of
  a key in place and appends a new key.
\<close>

definition pushItem :: "string \<Rightarrow> string \<Rightarrow> (string \<times> string list) list \<Rightarrow> (string \<times> string list) list" where
  "pushItem serialized key parts =
     AList.update key ((case map_of parts key of None \<Rightarrow> [] | Some existing \<Rightarrow> existing) @ [serialized]) parts"

text \<open>Lines 163-180: the grouping loop, on \<open>partitions\<close>, \<open>unkeyed\<close> and \<open>duplicatedItems\<close>.\<close>

fun groupByKey ::
  "(json \<Rightarrow> string) \<Rightarrow> string \<Rightarrow> string \<Rightarrow> json list
     \<Rightarrow> (string \<times> string list) list \<times> string list \<times> nat
     \<Rightarrow> js_error + ((string \<times> string list) list \<times> string list \<times> nat)" where
  "groupByKey stringify keyField multiKey [] acc = Inr acc"
| "groupByKey stringify keyField multiKey (item # items) (parts, unk, dups) =
     (case extractKeys item keyField of
        Inl e \<Rightarrow> Inl e
      | Inr keys \<Rightarrow>
          (let serialized = stringify item
           in if keys = [] then groupByKey stringify keyField multiKey items (parts, unk @ [serialized], dups)
              else (let keysToUse = (if multiKey = ''first'' then [hd keys] else keys)
                    in groupByKey stringify keyField multiKey items
                         (fold (pushItem serialized) keysToUse parts, unk,
                          if length keysToUse > 1 then dups + 1 else dups))))"

text \<open>Lines 182-196: oversized partitions are split into sub-partitions.\<close>

definition subKey :: "string \<Rightarrow> nat \<Rightarrow> string" where
  "subKey key i = key @ ''_part'' @ show_nat (i + 1)"

definition splitPartition ::
  "nat \<Rightarrow> string \<times> string list \<Rightarrow> (string \<times> string list) list \<Rightarrow> (string \<times> string list) list" where
  "splitPartition maxPartitionSize kp finalPartitions =
     (case kp of (key, partitionItems) \<Rightarrow>
        if length partitionItems \<le> maxPartitionSize
        then AList.update key partitionItems finalPartitions
        else (let chunks = (length partitionItems + maxPartitionSize - 1) div maxPartitionSize
              in fold (\<lambda>i fp. AList.update (subKey key i)
                                 (take maxPartitionSize (drop (i * maxPartitionSize) partitionItems)) fp)
                      [0..<chunks] finalPartitions))"

definition subSplit :: "nat \<Rightarrow> (string \<times> string list) list \<Rightarrow> (string \<times> string list) list" where
  "subSplit maxPartitionSize parts = fold (splitPartition maxPartitionSize) parts []"

definition shuffleByKey ::
  "(string \<Rightarrow> json option) \<Rightarrow> (json \<Rightarrow> string) \<Rightarrow> string list \<Rightarrow> SwarmConfig
     \<Rightarrow> js_error + ShuffleResult" where
  "shuffleByKey parse stringify batchResults config =
     (case swarm_shuffle config of
        None \<Rightarrow> Inl TypeError
      | Some shuffleConfig \<Rightarrow>
          (let keyField = key_field shuffleConfig;
               multiKey = (case multi_key shuffleConfig of
                             None \<Rightarrow> ''duplicate''
                           | Some m \<Rightarrow> if m = [] then ''duplicate'' else m);
               maxPartitionSize = (case max_partition_size shuffleConfig of
                                     None \<Rightarrow> default_max_partition_size
                                   | Some n \<Rightarrow> if n = 0 then default_max_partition_size else n);
               items = parseMapOutputs parse batchResults
           in (case groupByKey stringify keyField multiKey items ([], [], 0) of
                 Inl e \<Rightarrow> Inl e
               | Inr (parts, unk, dups) \<Rightarrow>
                   Inr \<lparr>partitions = subSplit maxPartitionSize parts, unkeyed = unk,
                        totalItems = length items, duplicatedItems = dups\<rparr>)))"

text \<open>
  \<open>s.replace(/pat/g, rep)\<close> for a literal pattern; the \<open>$\<close> patterns of a replacement
  string are not interpreted.
\<close>

lemma strip_prefix_shorter:
  "p \<noteq> [] \<Longrightarrow> strip_prefix p s = Some r \<Longrightarrow> length r < length s"
  by (cases p) (auto dest: strip_prefix_length)

function replace_all :: "string \<Rightarrow> string \<Rightarrow> string \<Rightarrow> string" where
  "replace_all pat rep [] = []"
| "replace_all pat rep (c # cs) =
     (if pat = [] then c # cs
      else (case strip_prefix pat (c # cs) of
              Some rest \<Rightarrow> rep @ replace_all pat rep rest
            | None \<Rightarrow> c # replace_all pat rep cs))"
  by pat_completeness auto
termination
  by (relation "measure (\<lambda>(pat, rep, s). length s)") (auto dest: strip_prefix_shorter)

record ShuffleReduceOptions =
  opt_config :: SwarmConfig
  opt_agent :: AgentConfig
  opt_agentId :: string
  opt_userMessage :: string
  opt_concurrency :: nat

text \<open>\<open>(error as Error).message\<close>.\<close>

fun errorMessage :: "js_error \<Rightarrow> string" where
  "errorMessage (CommandFailed m) = m"
| "errorMessage ENOENT = ''ENOENT''"
| "errorMessage SyntaxError = ''SyntaxError''"
| "errorMessage TypeError = ''TypeError''"

definition buildPartitionReducePrompt :: "string \<Rightarrow> string \<Rightarrow> string \<Rightarrow> nat \<Rightarrow> string \<Rightarrow> string" where
  \<open>buildPartitionReducePrompt customPrompt partitionKey itemsText itemCount userMessage =
     (let defaultPrompt = ''Analyze the following '' @ show_nat itemCount
            @ '' items that share the key "'' @ partitionKey
            @ ''". Identify any duplicates, near-duplicates, or closely related items.'';
          prompt = (if customPrompt \<noteq> []
                    then replace_all ''{{user_message}}'' userMessage
                           (replace_all ''{{item_count}}'' (show_nat itemCount)
                              (replace_all ''{{items}}'' itemsText
                                 (replace_all ''{{partition_key}}'' partitionKey customPrompt)))
                    else defaultPrompt)
      in prompt @ [NL, NL] @ ''Original task: '' @ userMessage @ [NL, NL]
         @ ''Partition "'' @ partitionKey @ ''" ('' @ show_nat itemCount @ '' items):'' @ [NL]
         @ itemsText)\<close>

definition buildMergePrompt :: "string \<Rightarrow> string \<Rightarrow> nat \<Rightarrow> nat \<Rightarrow> nat \<Rightarrow> string \<Rightarrow> string" where
  "buildMergePrompt customPrompt combinedResults partitionCount itemTotal dups userMessage =
     (let crossPartitionNote =
            (if dups > 0
             then [NL, NL] @ ''Note: '' @ show_nat dups
                  @ '' items appeared in multiple partitions (shared multiple keys). Deduplicate any findings that appear across partitions.''
             else []);
          defaultPrompt = ''Below are results from '' @ show_nat partitionCount
            @ '' partitions analyzing '' @ show_nat itemTotal @ '' total items. ''
            @ ''Merge these results into a single consolidated report. Remove duplicate findings that appear across partitions.''
            @ crossPartitionNote;
          prompt = (if customPrompt \<noteq> [] then customPrompt else defaultPrompt)
      in prompt @ [NL, NL] @ ''Original task: '' @ userMessage @ [NL, NL] @ ''---'' @ [NL, NL]
         @ combinedResults)"

text \<open>The prompts and the reducer agent of \<open>shuffleReducePartitions\<close> (lines 218-235).\<close>

definition option_or :: "string option \<Rightarrow> string" where
  "option_or x = (case x of None \<Rightarrow> [] | Some v \<Rightarrow> v)"

definition reducePromptOf :: "SwarmConfig \<Rightarrow> string option \<Rightarrow> string" where
  "reducePromptOf config own =
     (if option_or own \<noteq> [] then option_or own
      else (case swarm_reduce config of None \<Rightarrow> [] | Some r \<Rightarrow> option_or (reduce_config_prompt r)))"

definition reduceAgentIdOf :: "ShuffleReduceOptions \<Rightarrow> string" where
  "reduceAgentIdOf options =
     (case swarm_reduce (opt_config options) of
        None \<Rightarrow> opt_agentId options
      | Some r \<Rightarrow> if option_or (reduce_config_agent r) \<noteq> [] then option_or (reduce_config_agent r)
                  else opt_agentId options)"

definition reduceAgentOf :: "env \<Rightarrow> ShuffleReduceOptions \<Rightarrow> AgentConfig" where
  "reduceAgentOf E options =
     (case map_of (getAgents E) (reduceAgentIdOf options) of
        Some a \<Rightarrow> a
      | None \<Rightarrow> opt_agent options)"

definition partitionFailed :: "string \<Rightarrow> js_error \<Rightarrow> string" where
  \<open>partitionFailed key e = ''[Partition "'' @ key @ ''" failed: '' @ errorMessage e @ '']''\<close>

text \<open>
  Lines 241-274: the reduction of the keyed partitions, in the order of the sorted keys.
  The program runs them under a semaphore of \<open>concurrency\<close> permits and pushes each result
  as it arrives; the model runs them one after the other, and \<open>partitionResults\<close> is sorted
  by key afterwards.
\<close>

fun reduceKeyed ::
  "env \<Rightarrow> ShuffleReduceOptions \<Rightarrow> string \<Rightarrow> (string \<times> string list) list \<Rightarrow> string list \<Rightarrow> world
     \<Rightarrow> (string \<times> string) list \<times> world" where
  "reduceKeyed E options partitionReducePrompt parts [] w = ([], w)"
| "reduceKeyed E options partitionReducePrompt parts (key # keys) w =
     (let items = (case map_of parts key of None \<Rightarrow> [] | Some xs \<Rightarrow> xs);
          itemsText = join [NL] items;
          prompt = buildPartitionReducePrompt partitionReducePrompt key itemsText (length items)
                     (opt_userMessage options);
          (r, w1) = invokeAgent E (reduceAgentOf E options) (reduceAgentIdOf options) prompt True w;
          entry = (case r of Inr out \<Rightarrow> (key, out) | Inl e \<Rightarrow> (key, partitionFailed key e));
          (rest, w2) = reduceKeyed E options partitionReducePrompt parts keys w1
      in (entry # rest, w2))"

text \<open>Lines 276-306: the partition of the unkeyed items.\<close>

definition reduceUnkeyed ::
  "env \<Rightarrow> ShuffleReduceOptions \<Rightarrow> string \<Rightarrow> string list \<Rightarrow> world \<Rightarrow> (string \<times> string) list \<times> world" where
  "reduceUnkeyed E options partitionReducePrompt unk w =
     (if length unk > 0
      then (let prompt = buildPartitionReducePrompt partitionReducePrompt ''_unkeyed'' (join [NL] unk)
                           (length unk) (opt_userMessage options);
                (r, w1) = invokeAgent E (reduceAgentOf E options) (reduceAgentIdOf options) prompt True w
            in (case r of Inr out \<Rightarrow> ([(''_unkeyed'', out)], w1) | Inl e \<Rightarrow> ([], w1)))
      else ([], w))"

text \<open>\<open>partitionResults\<close> when \<open>Promise.all\<close> has resolved (line 308).\<close>

definition partitionResultsOf ::
  "env \<Rightarrow> ShuffleResult \<Rightarrow> ShuffleReduceOptions \<Rightarrow> world \<Rightarrow> (string \<times> string) list \<times> world" where
  "partitionResultsOf E shuffleResult options w =
     (let partitionReducePrompt =
            reducePromptOf (opt_config options)
              (case swarm_shuffle (opt_config options) of None \<Rightarrow> None | Some sc \<Rightarrow> reduce_prompt sc);
          partitionKeys = sort (map fst (partitions shuffleResult));
          (keyed, w1) = reduceKeyed E options partitionReducePrompt (partitions shuffleResult)
                          partitionKeys w;
          (unk, w2) = reduceUnkeyed E options partitionReducePrompt (unkeyed shuffleResult) w1
      in (keyed @ unk, w2))"

text \<open>\<open>xs.sort((a, b) => a.key.localeCompare(b.key))\<close>, a stable sort.\<close>

fun insert_by :: "('a \<Rightarrow> 'a \<Rightarrow> int) \<Rightarrow> 'a \<Rightarrow> 'a list \<Rightarrow> 'a list" where
  "insert_by cmp x [] = [x]"
| "insert_by cmp x (y # ys) = (if cmp x y \<le> 0 then x # y # ys else y # insert_by cmp x ys)"

definition sort_by :: "('a \<Rightarrow> 'a \<Rightarrow> int) \<Rightarrow> 'a list \<Rightarrow> 'a list" where
  "sort_by cmp xs = foldr (insert_by cmp) xs []"

definition combinePartitionResults :: "(string \<times> string) list \<Rightarrow> string" where
  "combinePartitionResults prs =
     join stepSeparator (map (\<lambda>(key, res). ''## Partition: '' @ key @ [NL, NL] @ res) prs)"

definition shuffleReducePartitions ::
  "env \<Rightarrow> ShuffleResult \<Rightarrow> ShuffleReduceOptions \<Rightarrow> world \<Rightarrow> string \<times> world" where
  "shuffleReducePartitions E shuffleResult options w =
     (let mergePrompt =
            reducePromptOf (opt_config options)
              (case swarm_shuffle (opt_config options) of None \<Rightarrow> None | Some sc \<Rightarrow> merge_prompt sc);
          (prs, w1) = partitionResultsOf E shuffleResult options w;
          partitionResults = sort_by (\<lambda>a b. localeCompare E (fst a) (fst b)) prs;
          combinedPartitionResults = combinePartitionResults partitionResults
      in if length partitionResults \<le> hierarchical_reduce_fanin
         then (let finalPrompt = buildMergePrompt mergePrompt combinedPartitionResults
                                   (length partitionResults) (totalItems shuffleResult)
                                   (duplicatedItems shuffleResult) (opt_userMessage options);
                   (r, w2) = invokeAgent E (reduceAgentOf E options) (reduceAgentIdOf options)
                               finalPrompt True w1
               in (case r of Inr out \<Rightarrow> (out, w2) | Inl e \<Rightarrow> (combinedPartitionResults, w2)))
         else (combinedPartitionResults, w1))"

section \<open>Concrete inputs\<close>

text \<open>States and configurations on which the properties below are exercised.\<close>

definition stranded :: world where
  "stranded =
     \<lparr>incoming = [], processing = [(''x.json'', ''{}''), (''notes.txt'', ''n'')], outgoing = [],
      chats = [], filesDir = [], paths = [], spawned = [], queuedFiles = [],
      agentProcessingChains = []\<rparr>"

definition demoAgents :: agent_table where
  "demoAgents =
     [(''default'', \<lparr>agent_name = ''Default'', agent_provider = ''anthropic'', agent_model = ''sonnet'',
                     agent_working_directory = None\<rparr>),
      (''coder'', \<lparr>agent_name = ''Coder'', agent_provider = ''openai'', agent_model = ''gpt'',
                   agent_working_directory = Some ''coder-dir''\<rparr>)]"

definition noMemory :: memory_files where
  "noMemory = \<lparr>memoryDirExists = True, knowledge_md = None, reflections_jsonl = None,
               episodesSection = (\<lambda>m. None), skillsSection = (\<lambda>m. None)\<rparr>"

definition demoEnv :: env where
  "demoEnv =
     \<lparr>getAgents = demoAgents, getTeams = [], workspacePath = ''/ws'', RESET_FLAG = ''/ws/reset_flag'',
      FILES_DIR = ''/ws/files'', JSON_parse = (\<lambda>s. None), parseMessageData = (\<lambda>s. None),
      parseAgentRouting = (\<lambda>m ags tms. \<lparr>routing_agentId = ''default'', routing_message = m,
                                          routing_isTeam = False\<rparr>),
      findTeamForAgent = (\<lambda>a tms. None),
      getAgentResetFlag = (\<lambda>a ws. ws @ ''/'' @ a @ ''/reset_flag''),
      extractTeammateMentions = (\<lambda>r a t tms ags. []),
      resolveClaudeModel = (\<lambda>m. m), resolveCodexModel = (\<lambda>m. m),
      memoryFiles = (\<lambda>n d. noMemory),
      runCommand = (\<lambda>n c args cwd. Inr ''ok''),
      dateNow = 1700000000000, isoDate = ''2026-02-17T10:00:00.000Z'', mtimeMs = (\<lambda>f. 0),
      localeCompare = (\<lambda>a b. if a < b then - 1 else if a = b then 0 else 1)\<rparr>"


definition twoMentions :: MessageData where
  "twoMentions =
     \<lparr>msg_channel = ''telegram'', msg_sender = ''ann'', msg_message = Some ''@coder @default hi'',
      msg_timestamp = 1700000000000, msg_messageId = ''m7'', msg_agent = None\<rparr>"

definition eggEnv :: env where
  "eggEnv =
     demoEnv\<lparr>parseMessageData := (\<lambda>s. if s = ''two'' then Some twoMentions else None),
             parseAgentRouting := (\<lambda>m ags tms. \<lparr>routing_agentId = ''error'',
                                                  routing_message = ''One agent at a time, please.'',
                                                  routing_isTeam = False\<rparr>)\<rparr>"

definition eggQueue :: world where
  "eggQueue =
     \<lparr>incoming = [(''telegram_m7_1700000000000.json'', ''two'')], processing = [], outgoing = [],
      chats = [], filesDir = [], paths = [], spawned = [], queuedFiles = [],
      agentProcessingChains = []\<rparr>"

definition s3Agents :: agent_table where
  "s3Agents =
     [(''alice'', \<lparr>agent_name = ''Alice'', agent_provider = ''anthropic'', agent_model = ''sonnet'',
                   agent_working_directory = None\<rparr>),
      (''bob'', \<lparr>agent_name = ''Bob'', agent_provider = ''anthropic'', agent_model = ''sonnet'',
                 agent_working_directory = None\<rparr>)]"

definition s3Env :: env where
  "s3Env =
     demoEnv\<lparr>getAgents := s3Agents,
             getTeams := [(''eng'', \<lparr>team_name = ''Engineering'', team_agents = [''alice'', ''bob''],
                                    team_leader_agent = ''alice''\<rparr>)],
             extractTeammateMentions :=
               (\<lambda>r a t tms ags. if a = ''alice''
                                 then [\<lparr>mention_teammateId = ''bob'', mention_message = ''please continue''\<rparr>]
                                 else []),
             runCommand := (\<lambda>n c args cwd. if n = 0 then Inr ''@bob please continue'' else Inr ''done'')\<rparr>"

definition emptyWorld :: world where
  "emptyWorld =
     \<lparr>incoming = [], processing = [], outgoing = [], chats = [], filesDir = [], paths = [],
      spawned = [], queuedFiles = [], agentProcessingChains = []\<rparr>"

definition s3Steps :: "ChainStep list" where
  "s3Steps = [\<lparr>step_agentId = ''alice'', step_response = ''@bob please continue''\<rparr>,
              \<lparr>step_agentId = ''bob'', step_response = ''done''\<rparr>]"

definition longReport :: string where
  "longReport = replicate 4001 CHR ''a''"

definition plainMessage :: MessageData where
  "plainMessage =
     \<lparr>msg_channel = ''telegram'', msg_sender = ''ann'', msg_message = Some ''hello'',
      msg_timestamp = 1700000000000, msg_messageId = ''m1'', msg_agent = None\<rparr>"

definition swarmContext :: SwarmJobContext where
  "swarmContext = \<lparr>ctx_channel = ''telegram'', ctx_sender = ''ann'', ctx_messageId = ''m9'',
                   ctx_originalMessage = ''@swarm review''\<rparr>"

definition leakEnv :: env where
  "leakEnv =
     demoEnv\<lparr>parseMessageData := (\<lambda>s. if s = ''plain'' then Some plainMessage else None),
             runCommand := (\<lambda>n c args cwd. Inr ''Here it is: [send_file: /tmp/report.pdf]'')\<rparr>"

definition leakQueue :: world where
  "leakQueue = emptyWorld\<lparr>incoming := [(''telegram_m1_1.json'', ''plain'')]\<rparr>"

definition leakDone :: world where
  "leakDone =
     emptyWorld
       \<lparr>outgoing := [(''telegram_m1_1700000000000.json'',
           \<lparr>resp_channel = ''telegram'', resp_sender = ''ann'',
            resp_message = ''Here it is: [send_file: /tmp/report.pdf]'',
            resp_originalMessage = ''hello'', resp_timestamp = 1700000000000,
            resp_messageId = ''m1'', resp_agent = Some ''default'', resp_files = None\<rparr>)],
        spawned := [(''claude'', [''--dangerously-skip-permissions'', ''--model'', ''sonnet'', ''-c'',
                                 ''-p'', ''hello''], ''/ws/default'')]\<rparr>"

definition attachWorld :: world where
  "attachWorld = emptyWorld\<lparr>paths := [''/tmp/report.pdf'']\<rparr>"

text \<open>
  A Codex event stream: \<open>JSON.parse\<close> on its lines. The last agent message of
  \<open>codexStream\<close> is \<open>second\<close>; the only agent message of \<open>codexSilent\<close> has an empty text.
\<close>

definition codexParse :: "string \<Rightarrow> json option" where
  \<open>codexParse = map_of
     [(''{"type":"thread.started"}'', JObj [(''type'', JStr ''thread.started'')]),
      (''{"type":"item.completed","item":{"type":"agent_message","text":"first"}}'',
       JObj [(''type'', JStr ''item.completed''),
             (''item'', JObj [(''type'', JStr ''agent_message''), (''text'', JStr ''first'')])]),
      (''{"type":"item.completed","item":{"type":"reasoning","text":"hm"}}'',
       JObj [(''type'', JStr ''item.completed''),
             (''item'', JObj [(''type'', JStr ''reasoning''), (''text'', JStr ''hm'')])]),
      (''{"type":"item.completed","item":{"type":"agent_message","text":"second"}}'',
       JObj [(''type'', JStr ''item.completed''),
             (''item'', JObj [(''type'', JStr ''agent_message''), (''text'', JStr ''second'')])]),
      (''{"type":"item.completed","item":{"type":"agent_message","text":""}}'',
       JObj [(''type'', JStr ''item.completed''),
             (''item'', JObj [(''type'', JStr ''agent_message''), (''text'', JStr [])])]),
      (''null'', JNull)]\<close>

definition codexStream :: string where
  \<open>codexStream =
     ''{"type":"thread.started"}'' @ [NL]
     @ ''{"type":"item.completed","item":{"type":"agent_message","text":"first"}}'' @ [NL]
     @ ''warning: not json'' @ [NL]
     @ ''{"type":"item.completed","item":{"type":"agent_message","text":"second"}}'' @ [NL]
     @ ''{"type":"item.completed","item":{"type":"reasoning","text":"hm"}}'' @ [NL]
     @ ''null'' @ [NL]\<close>

definition codexSilent :: string where
  \<open>codexSilent =
     ''{"type":"thread.started"}'' @ [NL]
     @ ''{"type":"item.completed","item":{"type":"agent_message","text":""}}'' @ [NL]\<close>
text \<open>
  The specification's reading of the event stream: the \<open>text\<close> of every line that parses
  to an event of type \<open>item.completed\<close> whose item has type \<open>agent_message\<close>, in order; the
  response is the last of them, or the fallback when there is none.
\<close>

definition agentMessageText :: "(string \<Rightarrow> json option) \<Rightarrow> string \<Rightarrow> json option option" where
  "agentMessageText parse line =
     (case parse line of
        None \<Rightarrow> None
      | Some json \<Rightarrow>
          if opt_prop (Some json) ''type'' = Some (JStr ''item.completed'')
             \<and> opt_prop (opt_prop (Some json) ''item'') ''type'' = Some (JStr ''agent_message'')
          then Some (opt_prop (opt_prop (Some json) ''item'') ''text'')
          else None)"

definition agentMessageTexts :: "(string \<Rightarrow> json option) \<Rightarrow> string \<Rightarrow> json option list" where
  "agentMessageTexts parse codexOutput =
     List.map_filter (agentMessageText parse) (split_lines (trim codexOutput))"

definition specCodexResponse :: "(string \<Rightarrow> json option) \<Rightarrow> string \<Rightarrow> json option" where
  "specCodexResponse parse codexOutput =
     (if agentMessageTexts parse codexOutput = [] then Some (JStr codexFallback)
      else last (agentMessageTexts parse codexOutput))"

text \<open>
  Reflection files: \<open>JSON.parse\<close> on their lines. \<open>elevenLines\<close> has ten records and a
  last line that is not JSON; \<open>threeLines\<close> has a record with an action, a malformed line
  and a record whose action is \<open>null\<close>.
\<close>

definition reflParse :: "string \<Rightarrow> json option" where
  \<open>reflParse = map_of
     [(''{"type":"insight","context":"c1","lesson":"l1"}'',
       JObj [(''type'', JStr ''insight''), (''context'', JStr ''c1''), (''lesson'', JStr ''l1'')]),
      (''{"type":"insight","context":"c2","lesson":"l2"}'',
       JObj [(''type'', JStr ''insight''), (''context'', JStr ''c2''), (''lesson'', JStr ''l2'')]),
      (''{"type":"insight","context":"c3","lesson":"l3"}'',
       JObj [(''type'', JStr ''insight''), (''context'', JStr ''c3''), (''lesson'', JStr ''l3'')]),
      (''{"type":"insight","context":"c4","lesson":"l4"}'',
       JObj [(''type'', JStr ''insight''), (''context'', JStr ''c4''), (''lesson'', JStr ''l4'')]),
      (''{"type":"insight","context":"c5","lesson":"l5"}'',
       JObj [(''type'', JStr ''insight''), (''context'', JStr ''c5''), (''lesson'', JStr ''l5'')]),
      (''{"type":"insight","context":"c6","lesson":"l6"}'',
       JObj [(''type'', JStr ''insight''), (''context'', JStr ''c6''), (''lesson'', JStr ''l6'')]),
      (''{"type":"insight","context":"c7","lesson":"l7"}'',
       JObj [(''type'', JStr ''insight''), (''context'', JStr ''c7''), (''lesson'', JStr ''l7'')]),
      (''{"type":"insight","context":"c8","lesson":"l8"}'',
       JObj [(''type'', JStr ''insight''), (''context'', JStr ''c8''), (''lesson'', JStr ''l8'')]),
      (''{"type":"insight","context":"c9","lesson":"l9"}'',
       JObj [(''type'', JStr ''insight''), (''context'', JStr ''c9''), (''lesson'', JStr ''l9'')]),
      (''{"type":"insight","context":"c10","lesson":"l10"}'',
       JObj [(''type'', JStr ''insight''), (''context'', JStr ''c10''), (''lesson'', JStr ''l10'')]),
      (''{"type":"failure","context":"deploy","lesson":"check env","action":"add test"}'',
       JObj [(''type'', JStr ''failure''), (''context'', JStr ''deploy''), (''lesson'', JStr ''check env''),
             (''action'', JStr ''add test'')]),
      (''{"type":"success","context":"ci","lesson":"cache deps","action":null}'',
       JObj [(''type'', JStr ''success''), (''context'', JStr ''ci''), (''lesson'', JStr ''cache deps''),
             (''action'', JNull)]),
      (''null'', JNull)]\<close>

definition elevenLines :: string where
  \<open>elevenLines =
     ''{"type":"insight","context":"c1","lesson":"l1"}'' @ [NL]
     @ ''{"type":"insight","context":"c2","lesson":"l2"}'' @ [NL]
     @ ''{"type":"insight","context":"c3","lesson":"l3"}'' @ [NL]
     @ ''{"type":"insight","context":"c4","lesson":"l4"}'' @ [NL]
     @ ''{"type":"insight","context":"c5","lesson":"l5"}'' @ [NL]
     @ ''{"type":"insight","context":"c6","lesson":"l6"}'' @ [NL]
     @ ''{"type":"insight","context":"c7","lesson":"l7"}'' @ [NL]
     @ ''{"type":"insight","context":"c8","lesson":"l8"}'' @ [NL]
     @ ''{"type":"insight","context":"c9","lesson":"l9"}'' @ [NL]
     @ ''{"type":"insight","context":"c10","lesson":"l10"}'' @ [NL]
     @ ''{oops'' @ [NL]\<close>

definition threeLines :: string where
  \<open>threeLines =
     ''{"type":"failure","context":"deploy","lesson":"check env","action":"add test"}'' @ [NL]
     @ ''not json at all'' @ [NL]
     @ ''{"type":"success","context":"ci","lesson":"cache deps","action":null}'' @ [NL]\<close>

text \<open>
  The specification's reading of the reflections section: the last ten of the lines that
  parse, rendered.
\<close>

definition nonblankLines :: "string \<Rightarrow> string list" where
  "nonblankLines raw = filter (\<lambda>l. trim l \<noteq> []) (split_lines (trim raw))"

definition specRecentReflections :: "(string \<Rightarrow> json option) \<Rightarrow> string \<Rightarrow> string option" where
  "specRecentReflections parse raw =
     (let shown = slice_last 10 (filter (\<lambda>l. formatReflection parse l \<noteq> None) (nonblankLines raw))
      in if shown = [] then None
         else Some (''## Recent Reflections'' @ [NL]
                    @ join [NL] (List.map_filter (formatReflection parse) shown)))"

text \<open>\<open>JSON.stringify\<close> on values whose strings need no escaping.\<close>

fun stringifyPlain :: "json \<Rightarrow> string" where
  \<open>stringifyPlain JNull = ''null''\<close>
| \<open>stringifyPlain (JBool b) = (if b then ''true'' else ''false'')\<close>
| \<open>stringifyPlain (JNum n) = js_String (JNum n)\<close>
| \<open>stringifyPlain (JStr s) = ''"'' @ s @ ''"''\<close>
| \<open>stringifyPlain (JArr xs) = ''['' @ join '','' (map stringifyPlain xs) @ '']''\<close>
| \<open>stringifyPlain (JObj kvs) =
     ''{'' @ join '','' (map (\<lambda>kv. ''"'' @ fst kv @ ''":'' @ stringifyPlain (snd kv)) kvs) @ ''}''\<close>

text \<open>
  A map output whose keys collide with a sub-partition name: two items under the key
  \<open>a\<close>, one under the key \<open>a_part1\<close>, and a partition limit of one item.
\<close>

definition collideBatch :: string where
  \<open>collideBatch = ''[{"k":"a","n":1},{"k":"a","n":2},{"k":"a_part1","n":3}]''\<close>

definition collideParse :: "string \<Rightarrow> json option" where
  "collideParse = map_of
     [(collideBatch,
       JArr [JObj [(''k'', JStr ''a''), (''n'', JNum 1)],
             JObj [(''k'', JStr ''a''), (''n'', JNum 2)],
             JObj [(''k'', JStr ''a_part1''), (''n'', JNum 3)]])]"

definition collideConfig :: SwarmConfig where
  "collideConfig =
     \<lparr>swarm_shuffle = Some \<lparr>key_field = ''k'', multi_key = None, max_partition_size = Some 1,
                             reduce_prompt = None, merge_prompt = None\<rparr>,
      swarm_reduce = None\<rparr>"

text \<open>The names and item lists that the sub-split writes for one partition, in order.\<close>

definition assignments :: "nat \<Rightarrow> string \<times> string list \<Rightarrow> (string \<times> string list) list" where
  "assignments m kp =
     (case kp of (key, xs) \<Rightarrow>
        if length xs \<le> m then [(key, xs)]
        else map (\<lambda>i. (subKey key i, take m (drop (i * m) xs))) [0..<(length xs + m - 1) div m])"

text \<open>A shuffle result with one keyed partition and unkeyed items, and a reducer that fails.\<close>

definition failingEnv :: env where
  "failingEnv = demoEnv\<lparr>runCommand := (\<lambda>n c args cwd. Inl (CommandFailed ''rate limit''))\<rparr>"

definition mixedShuffle :: ShuffleResult where
  \<open>mixedShuffle =
     \<lparr>partitions = [(''auth'', [''{"id":1,"tags":["auth"]}''])], unkeyed = [''{"id":2}''],
      totalItems = 2, duplicatedItems = 0\<rparr>\<close>

definition reduceOptions :: ShuffleReduceOptions where
  "reduceOptions =
     \<lparr>opt_config = \<lparr>swarm_shuffle = Some \<lparr>key_field = ''tags'', multi_key = None,
                                            max_partition_size = None, reduce_prompt = None,
                                            merge_prompt = None\<rparr>,
                     swarm_reduce = None\<rparr>,
      opt_agent = \<lparr>agent_name = ''Default'', agent_provider = ''anthropic'', agent_model = ''sonnet'',
                   agent_working_directory = None\<rparr>,
      opt_agentId = ''default'', opt_userMessage = ''find duplicates'', opt_concurrency = 5\<rparr>"

section \<open>Properties\<close>

subsection \<open>Crash recovery\<close>

lemma recoverFile_processing:
  "map_of (processing (recoverFile f w)) g = (if g = f then None else map_of (processing w) g)"
  by (auto simp: recoverFile_def renameSync_def AList.delete_conv' split: option.splits)

lemma recoverFile_incoming:
  "map_of (incoming (recoverFile f w)) g =
     (if g = f \<and> map_of (processing w) f \<noteq> None then map_of (processing w) f
      else map_of (incoming w) g)"
  by (auto simp: recoverFile_def renameSync_def AList.update_conv' split: option.splits)

lemma fold_recoverFile_processing:
  "map_of (processing (fold recoverFile fs w)) g =
     (if g \<in> set fs then None else map_of (processing w) g)"
  by (induction fs arbitrary: w) (auto simp: recoverFile_processing)

lemma fold_recoverFile_incoming:
  "map_of (incoming (fold recoverFile fs w)) g =
     (if g \<in> set fs \<and> map_of (processing w) g \<noteq> None then map_of (processing w) g
      else map_of (incoming w) g)"
proof (induction fs arbitrary: w)
  case Nil
  show ?case by simp
next
  case (Cons f fs)
  show ?case
    by (auto simp: Cons.IH recoverFile_processing recoverFile_incoming)
qed

text \<open>
  Claim C2. At start-up every \<open>*.json\<close> file found in the processing directory is moved
  back to the incoming directory before the first polling tick: when the first tick runs
  \<open>processQueue\<close>, the file is no longer in the processing directory and the incoming
  directory holds it with the content it had.
\<close>

theorem recovery_before_polling:
  assumes "f \<in> set (map fst (processing w))" and "endsWith f ''.json''"
  shows "f \<notin> set (map fst (processing (startup w)))
         \<and> map_of (incoming (startup w)) f = map_of (processing w) f
         \<and> queueProcessor fuel E (Tick # evs) w = runEvents fuel E evs (processQueue E (startup w))"
proof -
  let ?w0 = "w\<lparr>queuedFiles := [], agentProcessingChains := []\<rparr>"
  let ?fs = "filter (\<lambda>f. endsWith f ''.json'') (map fst (processing ?w0))"
  have mem: "f \<in> set ?fs" using assms by simp
  have some: "map_of (processing w) f \<noteq> None"
    using assms(1) by (simp add: map_of_eq_None_iff)
  have "map_of (processing (startup w)) f = None"
    using mem by (simp add: startup_def recoverOrphanedFiles_def fold_recoverFile_processing)
  then have a: "f \<notin> set (map fst (processing (startup w)))"
    by (simp add: map_of_eq_None_iff)
  have b: "map_of (incoming (startup w)) f = map_of (processing w) f"
    using mem some by (simp add: startup_def recoverOrphanedFiles_def fold_recoverFile_incoming)
  show ?thesis using a b by (simp add: queueProcessor_def)
qed

theorem recovery_before_polling_witness:
  "''x.json'' \<in> set (map fst (processing stranded)) \<and> endsWith ''x.json'' ''.json''
   \<and> ''x.json'' \<notin> set (map fst (processing (startup stranded)))
   \<and> map_of (incoming (startup stranded)) ''x.json'' = Some ''{}''"
  using recovery_before_polling [of "''x.json''" stranded]
  by (simp add: stranded_def endsWith_def)

subsection \<open>Roll-back of a failed message\<close>








subsection \<open>The response to several agent mentions\<close>

text \<open>
  Claim C10. When routing yields the agent id \<open>error\<close>, \<open>processMessage\<close> launches no
  subprocess: it completes, the response is written to the outgoing directory under the
  name of the incoming file, with the routed text as message, the \<open>messageId\<close> of the
  message, no \<open>agent\<close> and no \<open>files\<close>, and the file is gone from the processing
  directory.
\<close>

theorem easter_egg_response:
  assumes "map_of (incoming w) f = Some raw"
    and "parseMessageData E raw = Some messageData"
    and "msg_message messageData = Some rawMessage"
    and "routeMessage E messageData rawMessage = (''error'', egg, isTeamRouted)"
  shows "\<exists>w1. processMessage fuel E f w = Some (Completed, w1)
           \<and> spawned w1 = spawned w
           \<and> outgoing w1 =
               AList.update f
                 \<lparr>resp_channel = msg_channel messageData, resp_sender = msg_sender messageData,
                  resp_message = egg, resp_originalMessage = rawMessage,
                  resp_timestamp = dateNow E, resp_messageId = msg_messageId messageData,
                  resp_agent = None, resp_files = None\<rparr> (outgoing w)
           \<and> f \<notin> set (map fst (processing w1))
           \<and> map_of (incoming w1) f = None"
proof -
  let ?w1 = "w\<lparr>incoming := AList.delete f (incoming w),
                processing := AList.update f raw (processing w)\<rparr>"
  have routed: "runRouted fuel E f messageData rawMessage ?w1
                  = Some (Inr (), easterEgg E f messageData rawMessage egg ?w1)"
    using assms(4) by (simp add: runRouted_def)
  have body: "processBody fuel E f w = Some (Inr (), easterEgg E f messageData rawMessage egg ?w1)"
    using assms(1-3) routed
    by (simp add: processBody_def renameSync_def AList.update_conv')
  have pm: "processMessage fuel E f w
              = Some (Completed, easterEgg E f messageData rawMessage egg ?w1)"
    by (simp add: processMessage_def body)
  have gone: "f \<notin> set (map fst (processing (easterEgg E f messageData rawMessage egg ?w1)))"
    using AList.delete_notin_dom [of f "AList.update f raw (processing w)"]
    by (simp add: easterEgg_def)
  have inc: "map_of (incoming (easterEgg E f messageData rawMessage egg ?w1)) f = None"
    by (simp add: easterEgg_def AList.delete_conv')
  show ?thesis
    using pm gone inc by (simp add: easterEgg_def)
qed

theorem easter_egg_response_witness:
  "processMessage 0 eggEnv ''telegram_m7_1700000000000.json'' eggQueue
     = Some (Completed,
             eggQueue\<lparr>incoming := [],
                      outgoing := [(''telegram_m7_1700000000000.json'',
                        \<lparr>resp_channel = ''telegram'', resp_sender = ''ann'',
                         resp_message = ''One agent at a time, please.'',
                         resp_originalMessage = ''@coder @default hi'',
                         resp_timestamp = 1700000000000, resp_messageId = ''m7'',
                         resp_agent = None, resp_files = None\<rparr>)]\<rparr>)"
proof -
  have a: "map_of (incoming eggQueue) ''telegram_m7_1700000000000.json'' = Some ''two''"
    by (simp add: eggQueue_def)
  have b: "parseMessageData eggEnv ''two'' = Some twoMentions"
    by (simp add: eggEnv_def)
  have c: "msg_message twoMentions = Some ''@coder @default hi''"
    by (simp add: twoMentions_def)
  have r: "routeMessage eggEnv twoMentions ''@coder @default hi''
             = (''error'', ''One agent at a time, please.'', False)"
    by (simp add: routeMessage_def eggEnv_def twoMentions_def demoEnv_def)
  from easter_egg_response [OF a b c r, of 0]
  obtain w1 where pm:
    "processMessage 0 eggEnv ''telegram_m7_1700000000000.json'' eggQueue = Some (Completed, w1)"
    and out: "outgoing w1 =
               AList.update ''telegram_m7_1700000000000.json''
                 \<lparr>resp_channel = msg_channel twoMentions, resp_sender = msg_sender twoMentions,
                  resp_message = ''One agent at a time, please.'',
                  resp_originalMessage = ''@coder @default hi'',
                  resp_timestamp = dateNow eggEnv, resp_messageId = msg_messageId twoMentions,
                  resp_agent = None, resp_files = None\<rparr> (outgoing eggQueue)"
    by blast
  have "processMessage 0 eggEnv ''telegram_m7_1700000000000.json'' eggQueue
     = Some (Completed,
             eggQueue\<lparr>incoming := [],
                      outgoing := [(''telegram_m7_1700000000000.json'',
                        \<lparr>resp_channel = ''telegram'', resp_sender = ''ann'',
                         resp_message = ''One agent at a time, please.'',
                         resp_originalMessage = ''@coder @default hi'',
                         resp_timestamp = 1700000000000, resp_messageId = ''m7'',
                         resp_agent = None, resp_files = None\<rparr>)]\<rparr>)"
    by (simp add: processMessage_def processBody_def renameSync_def runRouted_def routeMessage_def
                  easterEgg_def eggQueue_def eggEnv_def twoMentions_def demoEnv_def)
  with pm out show ?thesis by simp
qed

subsection \<open>Final response of a team chain\<close>

lemma join_concat: "join sep (x # xs) = x @ concat (map (\<lambda>y. sep @ y) xs)"
  by (induction xs arbitrary: x) auto

text \<open>
  Claim C8. A chain that ends with exactly one recorded step answers with that step's
  response verbatim; a chain that ends with two or more steps answers with the steps in
  recorded order, each prefixed by \<open>@<agentId>: \<close>, with the separator
  \<open>\n\n---\n\n\<close> between consecutive steps.
\<close>

theorem chain_final_response:
  "(length chainSteps = 1 \<longrightarrow> aggregateSteps chainSteps = step_response (hd chainSteps))
   \<and> (2 \<le> length chainSteps \<longrightarrow>
        aggregateSteps chainSteps
          = ''@'' @ step_agentId (hd chainSteps) @ '': '' @ step_response (hd chainSteps)
            @ concat (map (\<lambda>s. [NL, NL] @ ''---'' @ [NL, NL]
                               @ ''@'' @ step_agentId s @ '': '' @ step_response s)
                          (tl chainSteps)))"
proof (cases chainSteps)
  case Nil
  then show ?thesis by simp
next
  case (Cons s ss)
  then show ?thesis
    by (cases ss) (simp_all add: aggregateSteps_def join_concat stepSeparator_def comp_def)
qed

theorem chain_final_response_witness:
  "chainLoop (Suc (Suc 0)) s3Env ''eng'' False [] [] ''alice'' ''start'' emptyWorld
     = Some ((s3Steps, []),
             emptyWorld\<lparr>spawned :=
               [(''claude'', [''--dangerously-skip-permissions'', ''--model'', ''sonnet'', ''-c'', ''-p'',
                              ''start''], ''/ws/alice''),
                (''claude'', [''--dangerously-skip-permissions'', ''--model'', ''sonnet'', ''-c'', ''-p'',
                              ''[Message from teammate @alice]:'' @ [NL] @ ''please continue''],
                 ''/ws/bob'')]\<rparr>)
   \<and> 2 \<le> length s3Steps
   \<and> aggregateSteps s3Steps
       = ''@alice: @bob please continue'' @ [NL, NL] @ ''---'' @ [NL, NL] @ ''@bob: done''"
proof -
  have run: "chainLoop (Suc (Suc 0)) s3Env ''eng'' False [] [] ''alice'' ''start'' emptyWorld
     = Some ((s3Steps, []),
             emptyWorld\<lparr>spawned :=
               [(''claude'', [''--dangerously-skip-permissions'', ''--model'', ''sonnet'', ''-c'', ''-p'',
                              ''start''], ''/ws/alice''),
                (''claude'', [''--dangerously-skip-permissions'', ''--model'', ''sonnet'', ''-c'', ''-p'',
                              ''[Message from teammate @alice]:'' @ [NL] @ ''please continue''],
                 ''/ws/bob'')]\<rparr>)"
    by (simp add: s3Env_def s3Agents_def demoEnv_def emptyWorld_def s3Steps_def invokeAgent_def
                  loadMemoryContext_def noMemory_def knowledgeSection_def reflectionsSection_def
                  path_join_def existsSync_def collectFiles_def fileRefMatch_def send_file_tag_def
                  Let_def)
  have len: "2 \<le> length s3Steps" by (simp add: s3Steps_def)
  from chain_final_response [of s3Steps] len
  have "aggregateSteps s3Steps
          = ''@'' @ step_agentId (hd s3Steps) @ '': '' @ step_response (hd s3Steps)
            @ concat (map (\<lambda>s. [NL, NL] @ ''---'' @ [NL, NL]
                               @ ''@'' @ step_agentId s @ '': '' @ step_response s)
                          (tl s3Steps))"
    by blast
  then have "aggregateSteps s3Steps
       = ''@alice: @bob please continue'' @ [NL, NL] @ ''---'' @ [NL, NL] @ ''@bob: done''"
    by (simp add: s3Steps_def)
  with run len show ?thesis by blast
qed

subsection \<open>Texts without an opening bracket\<close>

lemma fileRefMatch_starts:
  "fileRefMatch s = Some x \<Longrightarrow> \<exists>cs. s = CHR ''['' # cs"
  by (auto simp: fileRefMatch_def send_file_tag_def split: option.splits
           dest!: strip_prefix_append)

lemma fileRefMatch_no_bracket:
  "CHR ''['' \<notin> set s \<Longrightarrow> fileRefMatch s = None"
  using fileRefMatch_starts [of s] by (cases "fileRefMatch s") auto

lemma fileRefs_no_bracket:
  "CHR ''['' \<notin> set t \<Longrightarrow> fileRefs t = []"
  by (induction t rule: fileRefs.induct) (auto simp: fileRefMatch_no_bracket)

lemma hasFileRef_no_bracket:
  "CHR ''['' \<notin> set t \<Longrightarrow> \<not> hasFileRef t"
  by (induction t) (auto simp: fileRefMatch_no_bracket)

lemma set_trim: "set (trim s) \<subseteq> set s"
  by (auto simp: trim_def dest!: set_dropWhileD)

subsection \<open>Response truncation\<close>

lemma length_limitResponse: "length (limitResponse t) \<le> 4000"
  by (simp add: limitResponse_def)

text \<open>
  Claim C4. A dispatcher response whose text, after marker stripping and trimming, is
  longer than 4000 characters is written as its first 3900 characters followed by
  \<open>\n\n[Response truncated...]\<close>; a text of at most 4000 characters is written
  unchanged. A swarm final response longer than 4000 characters is written in full to the
  files directory and attached through \<open>files\<close>, the message being its first 4000
  characters and a notice; a shorter one is sent as it is, with no attachment.
\<close>

theorem response_truncation:
  "(4000 < length (strippedText w allFiles r) \<longrightarrow>
      messageAt (writeResponse E f messageData rawMessage aid allFiles r w) (responseFileName E messageData)
        = Some (take 3900 (strippedText w allFiles r) @ [NL, NL] @ ''[Response truncated...]''))
   \<and> (length (strippedText w allFiles r) \<le> 4000 \<longrightarrow>
      messageAt (writeResponse E f messageData rawMessage aid allFiles r w) (responseFileName E messageData)
        = Some (strippedText w allFiles r))
   \<and> (4000 < length r \<longrightarrow>
      map_of (filesDir (sendFinalResponse E ctx r w)) (swarmReportPath E) = Some r
      \<and> filesAt (sendFinalResponse E ctx r w) (swarmResponseName E ctx) = Some (Some [swarmReportPath E])
      \<and> messageAt (sendFinalResponse E ctx r w) (swarmResponseName E ctx)
          = Some (take 4000 r @ [NL, NL] @ ''_(Full swarm report attached as file)_''))
   \<and> (length r \<le> 4000 \<longrightarrow>
      filesDir (sendFinalResponse E ctx r w) = filesDir w
      \<and> filesAt (sendFinalResponse E ctx r w) (swarmResponseName E ctx) = Some None
      \<and> messageAt (sendFinalResponse E ctx r w) (swarmResponseName E ctx) = Some r)"
proof -
  have d: "messageAt (writeResponse E f messageData rawMessage aid allFiles r w)
             (responseFileName E messageData) = Some (limitResponse (strippedText w allFiles r))"
    by (simp add: messageAt_def writeResponse_def finalText_def Let_def AList.update_conv')
  have long: "4000 < length r \<Longrightarrow>
      map_of (filesDir (sendFinalResponse E ctx r w)) (swarmReportPath E) = Some r
      \<and> filesAt (sendFinalResponse E ctx r w) (swarmResponseName E ctx) = Some (Some [swarmReportPath E])
      \<and> messageAt (sendFinalResponse E ctx r w) (swarmResponseName E ctx)
          = Some (take 4000 r @ [NL, NL] @ ''_(Full swarm report attached as file)_'')"
    by (simp add: sendFinalResponse_def messageAt_def filesAt_def attachedNotice_def Let_def
                  AList.update_conv')
  have short: "length r \<le> 4000 \<Longrightarrow>
      filesDir (sendFinalResponse E ctx r w) = filesDir w
      \<and> filesAt (sendFinalResponse E ctx r w) (swarmResponseName E ctx) = Some None
      \<and> messageAt (sendFinalResponse E ctx r w) (swarmResponseName E ctx) = Some r"
    by (simp add: sendFinalResponse_def messageAt_def filesAt_def Let_def AList.update_conv')
  show ?thesis
    using long short by (simp add: d limitResponse_def)
qed

theorem response_truncation_witness:
  "4000 < length (strippedText emptyWorld [] longReport)
   \<and> messageAt (writeResponse demoEnv ''in.json'' plainMessage ''hello'' ''default'' [] longReport emptyWorld)
        ''telegram_m1_1700000000000.json''
       = Some (replicate 3900 CHR ''a'' @ [NL, NL] @ ''[Response truncated...]'')
   \<and> 4000 < length longReport
   \<and> map_of (filesDir (sendFinalResponse demoEnv swarmContext longReport emptyWorld))
        ''/ws/files/swarm_result_1700000000000.md'' = Some longReport
   \<and> messageAt (sendFinalResponse demoEnv swarmContext longReport emptyWorld)
        ''swarm_result_m9_1700000000000.json''
       = Some (replicate 4000 CHR ''a'' @ [NL, NL] @ ''_(Full swarm report attached as file)_'')"
proof -
  have nb: "CHR ''['' \<notin> set longReport" by (simp add: longReport_def)
  have tr: "trim longReport = longReport"
    by (simp add: trim_def longReport_def is_space_def dropWhile_replicate)
  have st: "strippedText emptyWorld [] longReport = longReport"
    by (simp add: strippedText_def outboundFilesOf_def collectFiles_def tr fileRefs_no_bracket [OF nb])
  have n1: "responseFileName demoEnv plainMessage = ''telegram_m1_1700000000000.json''"
    by (simp add: responseFileName_def demoEnv_def plainMessage_def show_nat.simps)
  have n2: "swarmReportPath demoEnv = ''/ws/files/swarm_result_1700000000000.md''"
    by (simp add: swarmReportPath_def path_join_def demoEnv_def show_nat.simps)
  have n3: "swarmResponseName demoEnv swarmContext = ''swarm_result_m9_1700000000000.json''"
    by (simp add: swarmResponseName_def swarmContext_def demoEnv_def show_nat.simps)
  have len: "4000 < length longReport" by (simp add: longReport_def)
  from response_truncation [of emptyWorld "[]" longReport demoEnv "''in.json''" plainMessage
      "''hello''" "''default''" swarmContext]
  show ?thesis
    using len by (simp add: st n1 n2 n3) (simp add: longReport_def)
qed

subsection \<open>Send-file markers\<close>

lemma set_set_add: "set (set_add x xs) = insert x (set xs)"
  by (auto simp: set_add_def)

lemma set_collect_fold:
  "set (fold (\<lambda>g fs. let filePath = trim g in if ex filePath then set_add filePath fs else fs) gs acc)
     = set acc \<union> {trim g |g. g \<in> set gs \<and> ex (trim g)}"
  by (induction gs arbitrary: acc) (auto simp: Let_def set_set_add)

lemma set_collectFiles:
  "set (collectFiles ex acc t) = set acc \<union> {trim g |g. g \<in> set (fileRefs t) \<and> ex (trim g)}"
  unfolding collectFiles_def by (rule set_collect_fold)

lemma count_list_tl: "count_list (tl xs) c \<le> count_list xs c"
  by (cases xs) auto

lemma count_list_dropWhile: "count_list (dropWhile P xs) c \<le> count_list xs c"
  by (induction xs) auto

lemma fileRefMatch_brackets:
  assumes "fileRefMatch s = Some (g, rest)"
  shows "Suc (count_list rest CHR ''['') \<le> count_list s CHR ''[''"
proof -
  from assms obtain r where r: "strip_prefix send_file_tag s = Some r"
    and rest: "rest = tl (dropWhile not_close r)"
    by (auto simp: fileRefMatch_def Let_def split: option.splits if_splits)
  have s: "s = send_file_tag @ r" using r by (rule strip_prefix_append)
  have "count_list rest CHR ''['' \<le> count_list r CHR ''[''"
    unfolding rest
    by (rule order_trans [OF count_list_tl count_list_dropWhile])
  then show ?thesis by (simp add: s send_file_tag_def)
qed

lemma brackets_stripFileRefs:
  "count_list (stripFileRefs t) CHR ''['' + length (fileRefs t) \<le> count_list t CHR ''[''"
proof (induction t rule: fileRefs.induct)
  case 1
  show ?case by simp
next
  case (2 c cs)
  show ?case
  proof (cases "fileRefMatch (c # cs)")
    case None
    with 2 show ?thesis by simp
  next
    case (Some m)
    obtain g rest where m: "m = (g, rest)" by (cases m)
    have ih: "count_list (stripFileRefs rest) CHR ''['' + length (fileRefs rest)
                \<le> count_list rest CHR ''[''"
      using 2 Some m by auto
    from fileRefMatch_brackets [OF Some [unfolded m]]
    have "Suc (count_list rest CHR ''['') \<le> count_list (c # cs) CHR ''[''" .
    with ih show ?thesis by (simp add: Some m)
  qed
qed

lemma count_list_zero: "count_list xs c = 0 \<Longrightarrow> c \<notin> set xs"
  by (induction xs) (auto split: if_splits)

lemma hasFileRef_truncated:
  "CHR ''['' \<notin> set t \<Longrightarrow> \<not> hasFileRef (t @ [NL, NL] @ ''[Response truncated...]'')"
proof (induction t)
  case Nil
  show ?case by (simp add: fileRefMatch_def send_file_tag_def)
next
  case (Cons c cs)
  have "fileRefMatch ((c # cs) @ [NL, NL] @ ''[Response truncated...]'') = None"
    using Cons.prems fileRefMatch_starts [of "(c # cs) @ [NL, NL] @ ''[Response truncated...]''"]
    by (cases "fileRefMatch ((c # cs) @ [NL, NL] @ ''[Response truncated...]'')") auto
  with Cons show ?case by simp
qed

lemma hasFileRef_limitResponse:
  assumes "CHR ''['' \<notin> set t"
  shows "\<not> hasFileRef (limitResponse t)"
proof (cases "4000 < length t")
  case True
  have "CHR ''['' \<notin> set (take 3900 t)"
    using assms by (auto dest: in_set_takeD)
  from hasFileRef_truncated [OF this] True show ?thesis
    by (simp add: limitResponse_def)
next
  case False
  with assms show ?thesis by (simp add: limitResponse_def hasFileRef_no_bracket)
qed

text \<open>
  Claim C1, as the program has it. The response file carries the final text and the
  collected files. Every marker of the trimmed response whose trimmed path exists is among
  the files. The markers are deleted only when at least one file is collected: with no
  file the text is written as it is, trimmed and cut to length. With a file collected, and
  every opening bracket of the text opening one of its markers, the written message
  contains no marker.
\<close>

theorem send_file_markers:
  "messageAt (writeResponse E f messageData rawMessage aid allFiles r w) (responseFileName E messageData)
     = Some (finalText w allFiles r)
   \<and> filesAt (writeResponse E f messageData rawMessage aid allFiles r w) (responseFileName E messageData)
       = Some (if outboundFilesOf w allFiles r = [] then None else Some (outboundFilesOf w allFiles r))
   \<and> (\<forall>g \<in> set (fileRefs (trim r)). existsSync w (trim g) \<longrightarrow> trim g \<in> set (outboundFilesOf w allFiles r))
   \<and> (outboundFilesOf w allFiles r = [] \<longrightarrow> finalText w allFiles r = limitResponse (trim r))
   \<and> (outboundFilesOf w allFiles r \<noteq> []
        \<and> count_list (trim r) CHR ''['' = length (fileRefs (trim r))
        \<longrightarrow> \<not> hasFileRef (finalText w allFiles r))"
proof -
  have a: "messageAt (writeResponse E f messageData rawMessage aid allFiles r w)
             (responseFileName E messageData) = Some (finalText w allFiles r)"
    by (simp add: messageAt_def writeResponse_def Let_def AList.update_conv')
  have b: "filesAt (writeResponse E f messageData rawMessage aid allFiles r w)
             (responseFileName E messageData)
       = Some (if outboundFilesOf w allFiles r = [] then None else Some (outboundFilesOf w allFiles r))"
    by (simp add: filesAt_def writeResponse_def Let_def AList.update_conv')
  have c: "\<forall>g \<in> set (fileRefs (trim r)). existsSync w (trim g)
             \<longrightarrow> trim g \<in> set (outboundFilesOf w allFiles r)"
    by (auto simp: outboundFilesOf_def set_collectFiles)
  have d: "outboundFilesOf w allFiles r = [] \<longrightarrow> finalText w allFiles r = limitResponse (trim r)"
    by (simp add: finalText_def strippedText_def)
  have e: "\<not> hasFileRef (finalText w allFiles r)"
    if files: "outboundFilesOf w allFiles r \<noteq> []"
      and br: "count_list (trim r) CHR ''['' = length (fileRefs (trim r))"
  proof -
    from brackets_stripFileRefs [of "trim r"] br
    have "count_list (stripFileRefs (trim r)) CHR ''['' = 0" by simp
    then have "CHR ''['' \<notin> set (stripFileRefs (trim r))" by (rule count_list_zero)
    then have "CHR ''['' \<notin> set (trim (stripFileRefs (trim r)))"
      using set_trim [of "stripFileRefs (trim r)"] by auto
    then have "\<not> hasFileRef (limitResponse (trim (stripFileRefs (trim r))))"
      by (rule hasFileRef_limitResponse)
    with files show ?thesis by (simp add: finalText_def strippedText_def)
  qed
  from a b c d e show ?thesis by blast
qed

text \<open>
  The claim as stated fails: an agent answers with a marker whose path does not exist, no
  file is collected, and the response is written with the marker in its message.
\<close>

theorem send_file_marker_left_in:
  "processMessage 0 leakEnv ''telegram_m1_1.json'' leakQueue = Some (Completed, leakDone)
   \<and> messageAt leakDone ''telegram_m1_1700000000000.json''
       = Some ''Here it is: [send_file: /tmp/report.pdf]''
   \<and> hasFileRef ''Here it is: [send_file: /tmp/report.pdf]''"
proof -
  have run: "processMessage 0 leakEnv ''telegram_m1_1.json'' leakQueue = Some (Completed, leakDone)"
    by (simp add: processMessage_def processBody_def renameSync_def runRouted_def routeMessage_def
      teamContextOf_def invokeAgent_def loadMemoryContext_def noMemory_def knowledgeSection_def
      reflectionsSection_def path_join_def existsSync_def unlinkSync_def writeResponse_def
      outboundFilesOf_def finalText_def strippedText_def limitResponse_def collectFiles_def
      fileRefMatch_def send_file_tag_def not_close_def trim_def is_space_def responseFileName_def
      show_nat.simps leakEnv_def leakQueue_def leakDone_def emptyWorld_def plainMessage_def
      demoEnv_def demoAgents_def Let_def)
  have msg: "messageAt leakDone ''telegram_m1_1700000000000.json''
       = Some ''Here it is: [send_file: /tmp/report.pdf]''"
    by (simp add: messageAt_def leakDone_def emptyWorld_def)
  have mark: "hasFileRef ''Here it is: [send_file: /tmp/report.pdf]''"
    by (simp add: fileRefMatch_def send_file_tag_def not_close_def is_space_def Let_def)
  from run msg mark show ?thesis by blast
qed

theorem send_file_markers_witness:
  "outboundFilesOf attachWorld [] ''Here it is: [send_file: /tmp/report.pdf] '' = [''/tmp/report.pdf'']
   \<and> count_list (trim ''Here it is: [send_file: /tmp/report.pdf] '') CHR ''[''
       = length (fileRefs (trim ''Here it is: [send_file: /tmp/report.pdf] ''))
   \<and> finalText attachWorld [] ''Here it is: [send_file: /tmp/report.pdf] '' = ''Here it is:''
   \<and> \<not> hasFileRef (finalText attachWorld [] ''Here it is: [send_file: /tmp/report.pdf] '')"
proof -
  have tr: "trim ''Here it is: [send_file: /tmp/report.pdf] '' = ''Here it is: [send_file: /tmp/report.pdf]''"
    by (simp add: trim_def is_space_def)
  have refs: "fileRefs ''Here it is: [send_file: /tmp/report.pdf]'' = [''/tmp/report.pdf'']"
    by (simp add: fileRefMatch_def send_file_tag_def not_close_def is_space_def Let_def)
  have files: "outboundFilesOf attachWorld [] ''Here it is: [send_file: /tmp/report.pdf] ''
                 = [''/tmp/report.pdf'']"
    unfolding outboundFilesOf_def collectFiles_def tr refs
    by (simp add: existsSync_def attachWorld_def emptyWorld_def set_add_def trim_def is_space_def)
  have cnt: "count_list (trim ''Here it is: [send_file: /tmp/report.pdf] '') CHR ''[''
       = length (fileRefs (trim ''Here it is: [send_file: /tmp/report.pdf] ''))"
    unfolding tr refs by simp
  have fin: "finalText attachWorld [] ''Here it is: [send_file: /tmp/report.pdf] '' = ''Here it is:''"
    unfolding finalText_def strippedText_def files tr
    by (simp add: limitResponse_def fileRefMatch_def send_file_tag_def not_close_def is_space_def
                  trim_def Let_def)
  from send_file_markers [of demoEnv "''in.json''" plainMessage "''hello''" "''default''" "[]"
      "''Here it is: [send_file: /tmp/report.pdf] ''" attachWorld] files cnt
  have "\<not> hasFileRef (finalText attachWorld [] ''Here it is: [send_file: /tmp/report.pdf] '')"
    by simp
  with files cnt fin show ?thesis by blast
qed

text \<open>
  The condition on the brackets is needed: deleting a marker can join the two halves of
  another one. Here the file of the inner marker exists, the replacement runs, and the
  message is again a marker.
\<close>

lemma send_file_marker_reassembled:
  "outboundFilesOf attachWorld [] ''[send_[send_file: /tmp/report.pdf]file: /x]'' = [''/tmp/report.pdf'']
   \<and> finalText attachWorld [] ''[send_[send_file: /tmp/report.pdf]file: /x]'' = ''[send_file: /x]''
   \<and> hasFileRef ''[send_file: /x]''"
  by code_simp

subsection \<open>Codex output\<close>

lemma codexLine_text:
  "codexLine parse line response =
     (case agentMessageText parse line of None \<Rightarrow> response | Some t \<Rightarrow> t)"
proof (cases "parse line")
  case None
  then show ?thesis by (simp add: codexLine_def agentMessageText_def)
next
  case (Some json)
  then show ?thesis
    by (cases json) (simp_all add: codexLine_def agentMessageText_def)
qed

lemma fold_codexLine:
  "fold (codexLine parse) ls response =
     (if List.map_filter (agentMessageText parse) ls = [] then response
      else last (List.map_filter (agentMessageText parse) ls))"
proof (induction ls arbitrary: response)
  case Nil
  show ?case by (simp add: List.map_filter_simps)
next
  case (Cons l ls)
  show ?case
  proof (cases "agentMessageText parse l")
    case None
    then have "codexLine parse l response = response" by (simp add: codexLine_text)
    with None show ?thesis by (simp add: Cons.IH List.map_filter_simps)
  next
    case (Some t)
    then have "codexLine parse l response = t" by (simp add: codexLine_text)
    with Some show ?thesis by (simp add: Cons.IH List.map_filter_simps)
  qed
qed

text \<open>
  Claim C9, as the program has it. The Codex branch returns the \<open>text\<close> of the last
  \<open>item.completed\<close> event whose item is an \<open>agent_message\<close> when that text is truthy (a
  string that is not empty); it returns the fallback string when the output has no such
  event, and also when the text of the last one is empty or absent.
\<close>

theorem codex_response:
  "codexResponse parse codexOutput =
     (if agentMessageTexts parse codexOutput = [] then JStr codexFallback
      else (case last (agentMessageTexts parse codexOutput) of
              None \<Rightarrow> JStr codexFallback
            | Some v \<Rightarrow> if truthy (Some v) then v else JStr codexFallback))
   \<and> (agent_provider agent = ''openai'' \<and> runCommand E = (\<lambda>n c args cwd. Inr codexOutput) \<longrightarrow>
        fst (invokeAgent E agent aid message0 shouldReset w)
          = Inr (typed_string (codexResponse (JSON_parse E) codexOutput)))"
proof -
  have a: "codexResponse parse codexOutput =
     (if agentMessageTexts parse codexOutput = [] then JStr codexFallback
      else (case last (agentMessageTexts parse codexOutput) of
              None \<Rightarrow> JStr codexFallback
            | Some v \<Rightarrow> if truthy (Some v) then v else JStr codexFallback))"
    by (simp add: codexResponse_def agentMessageTexts_def fold_codexLine Let_def)
  have b: "fst (invokeAgent E agent aid message0 shouldReset w)
          = Inr (typed_string (codexResponse (JSON_parse E) codexOutput))"
    if "agent_provider agent = ''openai''" and "runCommand E = (\<lambda>n c args cwd. Inr codexOutput)"
    using that by (simp add: invokeAgent_def Let_def)
  from a b show ?thesis by blast
qed

theorem codex_response_witness:
  "agentMessageTexts codexParse codexStream = [Some (JStr ''first''), Some (JStr ''second'')]
   \<and> codexResponse codexParse codexStream = JStr ''second''
   \<and> fst (invokeAgent (demoEnv\<lparr>JSON_parse := codexParse,
                                runCommand := (\<lambda>n c args cwd. Inr codexStream)\<rparr>)
             \<lparr>agent_name = ''Coder'', agent_provider = ''openai'', agent_model = ''gpt'',
              agent_working_directory = None\<rparr> ''coder'' ''hello'' False emptyWorld)
       = Inr ''second''"
proof -
  have ts: "agentMessageTexts codexParse codexStream = [Some (JStr ''first''), Some (JStr ''second'')]"
    by (simp add: agentMessageTexts_def agentMessageText_def codexParse_def codexStream_def
                  trim_def is_space_def List.map_filter_simps)
  from codex_response [of codexParse codexStream
      "\<lparr>agent_name = ''Coder'', agent_provider = ''openai'', agent_model = ''gpt'',
        agent_working_directory = None\<rparr>"
      "demoEnv\<lparr>JSON_parse := codexParse, runCommand := (\<lambda>n c args cwd. Inr codexStream)\<rparr>"
      "''coder''" "''hello''" False emptyWorld]
  show ?thesis by (simp add: ts)
qed

text \<open>
  The claim as stated fails on an event stream whose last agent message has an empty
  text: the specification's reading returns that text, the program the fallback string.
\<close>

theorem codex_empty_text_fallback:
  "agentMessageTexts codexParse codexSilent = [Some (JStr [])]
   \<and> specCodexResponse codexParse codexSilent = Some (JStr [])
   \<and> codexResponse codexParse codexSilent = JStr ''Sorry, I could not generate a response from Codex.''"
  by (simp add: specCodexResponse_def agentMessageTexts_def agentMessageText_def codexResponse_def
                codexLine_def codexFallback_def codexParse_def codexSilent_def trim_def is_space_def
                List.map_filter_simps)

subsection \<open>Recent reflections\<close>

lemma formatReflection_nonempty: "formatReflection parse l = Some s \<Longrightarrow> s \<noteq> []"
  by (auto simp: formatReflection_def split: option.splits sum.splits)

lemma filter_Boolean_map:
  "(\<And>x s. f x = Some s \<Longrightarrow> s \<noteq> []) \<Longrightarrow> filter_Boolean (map f xs) = List.map_filter f xs"
proof (induction xs)
  case Nil
  show ?case by (simp add: List.map_filter_simps)
next
  case (Cons x xs)
  then show ?case by (cases "f x") (auto simp: List.map_filter_simps)
qed

lemma join_empty: "(\<And>x. x \<in> set xs \<Longrightarrow> x \<noteq> []) \<Longrightarrow> (join sep xs = []) = (xs = [])"
  by (induction sep xs rule: join.induct) auto

lemma set_map_filter_nonempty:
  "x \<in> set (List.map_filter (formatReflection parse) ls) \<Longrightarrow> x \<noteq> []"
  by (auto simp: List.map_filter_def dest: formatReflection_nonempty)

text \<open>
  Claim C7, as the program has it. The section holds, in file order, the lines that parse
  among the last ten non-blank lines of the file (it takes the last ten lines first and
  skips the malformed ones after); there is no section when none of them parses. A line
  that parses to a record is rendered \<open>- [<type>] <context>: <lesson>\<close>, followed by the
  arrow and the action exactly when the action is truthy; a line that does not parse, or
  parses to \<open>null\<close>, is skipped.
\<close>

theorem recent_reflections:
  "reflectionsSection parse (Some raw) =
     (if List.map_filter (formatReflection parse) (slice_last 10 (nonblankLines raw)) = [] then None
      else Some (''## Recent Reflections'' @ [NL]
                 @ join [NL] (List.map_filter (formatReflection parse)
                                 (slice_last 10 (nonblankLines raw)))))
   \<and> (parse line = Some r \<and> r \<noteq> JNull \<longrightarrow>
        formatReflection parse line =
          Some (''- ['' @ template (opt_prop (Some r) ''type'') @ ''] ''
                @ template (opt_prop (Some r) ''context'') @ '': ''
                @ template (opt_prop (Some r) ''lesson'')
                @ (if truthy (opt_prop (Some r) ''action'')
                   then '' '' @ arrow @ '' '' @ template (opt_prop (Some r) ''action'') else [])))
   \<and> (parse line = None \<or> parse line = Some JNull \<longrightarrow> formatReflection parse line = None)"
proof -
  let ?shown = "List.map_filter (formatReflection parse) (slice_last 10 (nonblankLines raw))"
  have fb: "filter_Boolean (map (formatReflection parse) ls)
              = List.map_filter (formatReflection parse) ls" for ls
    by (rule filter_Boolean_map) (rule formatReflection_nonempty)
  have je: "(join [NL] ?shown = []) = (?shown = [])"
    by (rule join_empty) (rule set_map_filter_nonempty)
  have a: "reflectionsSection parse (Some raw) =
     (if ?shown = [] then None else Some (''## Recent Reflections'' @ [NL] @ join [NL] ?shown))"
  proof (cases "trim raw = []")
    case True
    have "trim [] = []" by (simp add: trim_def)
    with True show ?thesis
      by (simp add: reflectionsSection_def nonblankLines_def slice_last_def
                    List.map_filter_simps)
  next
    case False
    show ?thesis
    proof (cases "slice_last 10 (nonblankLines raw) = []")
      case True
      with False show ?thesis
        by (simp add: reflectionsSection_def nonblankLines_def Let_def List.map_filter_simps)
    next
      case nonempty: False
      with False je show ?thesis
        by (simp add: reflectionsSection_def nonblankLines_def Let_def fb)
    qed
  qed
  have b: "formatReflection parse line =
          Some (''- ['' @ template (opt_prop (Some r) ''type'') @ ''] ''
                @ template (opt_prop (Some r) ''context'') @ '': ''
                @ template (opt_prop (Some r) ''lesson'')
                @ (if truthy (opt_prop (Some r) ''action'')
                   then '' '' @ arrow @ '' '' @ template (opt_prop (Some r) ''action'') else []))"
    if "parse line = Some r" and "r \<noteq> JNull"
    using that by (cases r) (simp_all add: formatReflection_def)
  have c: "formatReflection parse line = None" if "parse line = None \<or> parse line = Some JNull"
    using that by (auto simp: formatReflection_def)
  from a b c show ?thesis by blast
qed

theorem recent_reflections_witness:
  "reflParse ''not json at all'' = None
   \<and> reflectionsSection reflParse (Some threeLines)
       = Some (''## Recent Reflections'' @ [NL]
               @ ''- [failure] deploy: check env '' @ arrow @ '' add test'' @ [NL]
               @ ''- [success] ci: cache deps'')"
  using recent_reflections [of reflParse threeLines "''not json at all''" JNull]
  by (simp add: nonblankLines_def threeLines_def reflParse_def formatReflection_def slice_last_def
                trim_def is_space_def List.map_filter_simps)

text \<open>
  The claim as stated fails on a file of ten records followed by a malformed line: the
  last ten lines that parse are the ten records, and the program shows nine of them.
\<close>

theorem recent_reflections_not_last_ten_parseable:
  "reflectionsSection reflParse (Some elevenLines) \<noteq> specRecentReflections reflParse elevenLines"
  by code_simp

subsection \<open>Partition reduce\<close>

lemma reduceKeyed_keys:
  "map fst (fst (reduceKeyed E options p parts keys w)) = keys"
  by (induction keys arbitrary: w) (simp_all add: Let_def split_def split: sum.splits)

lemma invokeAgent_failed:
  "runCommand E = (\<lambda>n c args cwd. Inl e) \<Longrightarrow> fst (invokeAgent E a i m r w) = Inl e"
  by (simp add: invokeAgent_def Let_def)

lemma reduceKeyed_failed:
  assumes "runCommand E = (\<lambda>n c args cwd. Inl e)"
  shows "fst (reduceKeyed E options p parts keys w) = map (\<lambda>key. (key, partitionFailed key e)) keys"
  by (induction keys arbitrary: w)
     (simp_all add: Let_def split_def invokeAgent_failed [OF assms])

lemma reduceUnkeyed_failed:
  assumes "runCommand E = (\<lambda>n c args cwd. Inl e)"
  shows "fst (reduceUnkeyed E options p unk w) = []"
  by (simp add: reduceUnkeyed_def Let_def split_def invokeAgent_failed [OF assms])

text \<open>
  Claim C5 fails on the program for the partition of the unkeyed items. With a reducer
  that fails on every invocation, the keyed partition \<open>auth\<close> is recorded with its
  placeholder, as the claim says, and the partition \<open>_unkeyed\<close> is not recorded at all: its
  \<open>catch\<close> block only logs. Two partitions give one entry of the merge input.
\<close>

theorem unkeyed_failure_not_recorded:
  \<open>fst (partitionResultsOf failingEnv mixedShuffle reduceOptions emptyWorld)
     = [(''auth'', ''[Partition "auth" failed: rate limit]'')]\<close>
  by (simp add: partitionResultsOf_def reduceUnkeyed_def reducePromptOf_def option_or_def
        reduceAgentOf_def reduceAgentIdOf_def invokeAgent_def loadMemoryContext_def noMemory_def
        knowledgeSection_def reflectionsSection_def path_join_def partitionFailed_def
        failingEnv_def demoEnv_def demoAgents_def mixedShuffle_def reduceOptions_def emptyWorld_def
        Let_def)

subsection \<open>Sub-splitting of oversized partitions\<close>

lemma splitPartition_assignments:
  "splitPartition m kp fp = fold (\<lambda>kv. AList.update (fst kv) (snd kv)) (assignments m kp) fp"
  by (cases kp) (simp add: splitPartition_def assignments_def fold_map comp_def Let_def)

lemma fold_splitPartition:
  "fold (splitPartition m) parts acc
     = fold (\<lambda>kv. AList.update (fst kv) (snd kv)) (concat (map (assignments m) parts)) acc"
  by (induction parts arbitrary: acc) (simp_all add: splitPartition_assignments)

lemma map_of_fold_update:
  "map_of (fold (\<lambda>kv. AList.update (fst kv) (snd kv)) kvs acc) = map_of acc ++ map_of (rev kvs)"
  by (induction kvs arbitrary: acc) (simp_all add: AList.update_conv')

lemma map_of_subSplit:
  assumes "distinct (map fst (concat (map (assignments m) parts)))"
    and "(k, v) \<in> set (concat (map (assignments m) parts))"
  shows "map_of (subSplit m parts) k = Some v"
proof -
  let ?kvs = "concat (map (assignments m) parts)"
  have "distinct (map fst (rev ?kvs))" using assms(1) by (simp add: rev_map [symmetric])
  moreover have "(k, v) \<in> set (rev ?kvs)" using assms(2) by simp
  ultimately have "map_of (rev ?kvs) k = Some v" by (rule map_of_is_SomeI)
  then show ?thesis
    by (simp add: subSplit_def fold_splitPartition map_of_fold_update)
qed

lemma concat_chunks:
  "concat (map (\<lambda>i. take m (drop (i * m) xs)) [0..<n]) = take (n * m) xs"
proof (induction n)
  case 0
  show ?case by simp
next
  case (Suc n)
  have "take (n * m) xs @ take m (drop (n * m) xs) = take (n * m + m) xs"
    by (simp add: take_add)
  with Suc show ?case by (simp add: add.commute)
qed

lemma chunks_cover:
  assumes "0 < m"
  shows "length xs \<le> ((length xs + m - 1) div m) * m"
proof -
  have "(length xs + m - 1) mod m < m" using assms by simp
  moreover have "((length xs + m - 1) div m) * m + (length xs + m - 1) mod m = length xs + m - 1"
    by simp
  ultimately show ?thesis using assms by linarith
qed

text \<open>
  Where no two of the names written coincide, the sub-split keeps every partition: a
  partition within the limit stays under its key, and an oversized one is cut into
  \<open>_part\<close> slices of at most \<open>m\<close> items whose concatenation is the partition.
\<close>

lemma subSplit_preserves:
  assumes "distinct (map fst (concat (map (assignments m) parts)))"
    and "0 < m" and "(key, xs) \<in> set parts"
  shows "length xs \<le> m \<longrightarrow> map_of (subSplit m parts) key = Some xs"
    and "m < length xs \<longrightarrow>
           (\<forall>i < (length xs + m - 1) div m.
               map_of (subSplit m parts) (subKey key i) = Some (take m (drop (i * m) xs))
               \<and> length (take m (drop (i * m) xs)) \<le> m)
           \<and> concat (map (\<lambda>i. take m (drop (i * m) xs)) [0..<(length xs + m - 1) div m]) = xs"
proof -
  have sub: "set (assignments m (key, xs)) \<subseteq> set (concat (map (assignments m) parts))"
    using assms(3) by auto
  show "length xs \<le> m \<longrightarrow> map_of (subSplit m parts) key = Some xs"
  proof
    assume "length xs \<le> m"
    then have "(key, xs) \<in> set (assignments m (key, xs))" by (simp add: assignments_def)
    with sub show "map_of (subSplit m parts) key = Some xs"
      using map_of_subSplit [OF assms(1)] by blast
  qed
  show "m < length xs \<longrightarrow>
           (\<forall>i < (length xs + m - 1) div m.
               map_of (subSplit m parts) (subKey key i) = Some (take m (drop (i * m) xs))
               \<and> length (take m (drop (i * m) xs)) \<le> m)
           \<and> concat (map (\<lambda>i. take m (drop (i * m) xs)) [0..<(length xs + m - 1) div m]) = xs"
  proof
    assume big: "m < length xs"
    have slices: "map_of (subSplit m parts) (subKey key i) = Some (take m (drop (i * m) xs))"
      if "i < (length xs + m - 1) div m" for i
    proof -
      from big that have "(subKey key i, take m (drop (i * m) xs)) \<in> set (assignments m (key, xs))"
        by (auto simp: assignments_def)
      with sub show ?thesis using map_of_subSplit [OF assms(1)] by blast
    qed
    have "concat (map (\<lambda>i. take m (drop (i * m) xs)) [0..<(length xs + m - 1) div m]) = xs"
      using chunks_cover [OF assms(2), of xs] by (simp add: concat_chunks)
    with slices show "(\<forall>i < (length xs + m - 1) div m.
               map_of (subSplit m parts) (subKey key i) = Some (take m (drop (i * m) xs))
               \<and> length (take m (drop (i * m) xs)) \<le> m)
           \<and> concat (map (\<lambda>i. take m (drop (i * m) xs)) [0..<(length xs + m - 1) div m]) = xs"
      by simp
  qed
qed

text \<open>
  Claim C6 fails on the program when a key of the map output is itself a sub-partition
  name. With a limit of one item, the partition \<open>a\<close> of two items is split into \<open>a_part1\<close>
  and \<open>a_part2\<close>, and the partition of the key \<open>a_part1\<close> then replaces the first slice: the
  first item of \<open>a\<close> is in no partition, and the slices named after \<open>a\<close> do not
  concatenate to the partition of \<open>a\<close>.
\<close>

theorem sub_split_name_collision:
  \<open>shuffleByKey collideParse stringifyPlain [collideBatch] collideConfig
     = Inr \<lparr>partitions = [(''a_part1'', [''{"k":"a_part1","n":3}'']),
                          (''a_part2'', [''{"k":"a","n":2}''])],
            unkeyed = [], totalItems = 3, duplicatedItems = 0\<rparr>\<close>
  by code_simp

end
